theory Spec2Isabelle
  imports Complex_Main
begin

section \<open>Python values\<close>

text \<open>
  FinanzaSim is a Python program. Its numbers are Python floats (and ints used as
  floats); they are modelled by the reals, so rounding, overflow and NaN are outside
  the model. The single infinity the program builds, \<^verbatim>\<open>float("inf")\<close> in
  \<^verbatim>\<open>calculate_ratios\<close>, is a constructor of its own.

  Every exception the modelled code can raise is a value of \<open>py_error\<close>:
  \<^verbatim>\<open>Decision(**decision)\<close> with a missing or unexpected keyword raises TypeError,
  \<^verbatim>\<open>xs[-1]\<close> on an empty list and \<^verbatim>\<open>random.choice([])\<close> raise IndexError, a float
  division by zero raises ZeroDivisionError, the session service raises ValueError for
  an unknown session, and the HTTP layer raises HTTPException(404).
\<close>

datatype py_error = TypeError | IndexError | ZeroDivisionError | ValueError | HTTP404

datatype py_float = Finite real | Infinity

text \<open>
  A Python dict with string keys is an association list in insertion order; the keys of
  a dict are distinct. \<^verbatim>\<open>d.get(k)\<close> is \<open>map_of d k\<close>, \<open>dict_get\<close> is
  \<^verbatim>\<open>d.get(k, default)\<close>, \<open>dict_set\<close> is \<^verbatim>\<open>d[k] = v\<close> (an existing key keeps
  its position, a new key goes last). Two dicts are equal in Python when they hold the
  same items, whatever the order: \<open>dict_eq\<close>.
\<close>

type_synonym 'v dict = "(string \<times> 'v) list"

definition dict_get :: "'v dict \<Rightarrow> string \<Rightarrow> 'v \<Rightarrow> 'v" where
  "dict_get d k dflt = (case map_of d k of None \<Rightarrow> dflt | Some v \<Rightarrow> v)"

fun dict_set :: "'v dict \<Rightarrow> string \<Rightarrow> 'v \<Rightarrow> 'v dict" where
  "dict_set [] k v = [(k, v)]"
| "dict_set ((k', v') # d) k v = (if k' = k then (k, v) # d else (k', v') # dict_set d k v)"

definition dict_eq :: "'v dict \<Rightarrow> 'v dict \<Rightarrow> bool" where
  "dict_eq d1 d2 = (map_of d1 = map_of d2)"

definition py_div :: "real \<Rightarrow> real \<Rightarrow> py_error + real" where
  "py_div a b = (if b = 0 then Inl ZeroDivisionError else Inr (a / b))"


section \<open>constants.py\<close>

record SimulationConstants =
  cost_per_unit :: real
  fixed_opex :: real
  tax_rate :: real
  base_demand :: real
  marketing_effect_per_dollar :: real
  price_elasticity :: real
  reference_price :: real

definition SIMULATION_CONSTANTS :: SimulationConstants where
  "SIMULATION_CONSTANTS =
     \<lparr>cost_per_unit = 25, fixed_opex = 10000, tax_rate = 0.20, base_demand = 1200,
      marketing_effect_per_dollar = 0.1, price_elasticity = 20, reference_price = 50\<rparr>"


section \<open>financial\_calculator.py\<close>

record Decision =
  production :: real
  price :: real
  marketing :: real

text \<open>
  The fields \<open>price\<close>, \<open>marketing\<close> and \<open>production\<close> of a snapshot have the names of
  the fields of a decision; the decision's are written \<open>Decision.price\<close> and so on.
  An element of \<^verbatim>\<open>company.financials\<close> is a dict: the seed of \<^verbatim>\<open>INITIAL_FINANCIALS\<close> or
  the \<^verbatim>\<open>__dict__\<close> of a FinancialSnapshot. Both carry every field of the dataclass, so
  such a dict is modelled by the record itself, and \<^verbatim>\<open>previous["cash"]\<close> is the field
  \<open>cash\<close>. A dict with only the keys quarter, cash, inventory, equity and debt, as the
  tests pass, is any record with these five values: \<^verbatim>\<open>simulate_quarter\<close> reads no other
  key.
\<close>

record FinancialSnapshot =
  quarter :: int
  cash :: real
  inventory :: real
  equity :: real
  debt :: real
  revenue :: real
  cogs :: real
  gross_profit :: real
  operating_expenses :: real
  ebit :: real
  taxes :: real
  net_income :: real
  units_sold :: real
  liquidity_ratio :: py_float
  net_margin :: real
  price :: real
  marketing :: real
  production :: real

definition calculate_demand :: "Decision \<Rightarrow> real" where
  "calculate_demand decision =
     (let price_effect = (reference_price SIMULATION_CONSTANTS - Decision.price decision)
                           * price_elasticity SIMULATION_CONSTANTS;
          marketing_effect = Decision.marketing decision
                               * marketing_effect_per_dollar SIMULATION_CONSTANTS;
          raw_demand = base_demand SIMULATION_CONSTANTS + price_effect + marketing_effect
      in max 0 raw_demand)"

text \<open>
  Both divisions of the program are in \<open>calculate_ratios\<close>. They are written with
  \<open>py_div\<close>, which raises on a zero divisor as Python does, behind the guards of the
  source.
\<close>

definition calculate_ratios :: "FinancialSnapshot \<Rightarrow> py_error + (py_float \<times> real)" where
  "calculate_ratios financial_snapshot =
     (let current_assets = cash financial_snapshot + inventory financial_snapshot;
          current_liabilities = debt financial_snapshot
      in case (if current_liabilities = 0 then Inr Infinity
               else map_sum (\<lambda>e. e) Finite (py_div current_assets current_liabilities)) of
           Inl e \<Rightarrow> Inl e
         | Inr liquidity_ratio_v \<Rightarrow>
             (case (if revenue financial_snapshot = 0 then Inr 0
                    else py_div (net_income financial_snapshot) (revenue financial_snapshot)) of
                Inl e \<Rightarrow> Inl e
              | Inr net_margin_v \<Rightarrow> Inr (liquidity_ratio_v, net_margin_v)))"

text \<open>
  \<^verbatim>\<open>Decision(**decision)\<close> succeeds exactly when the dict has the three keyword
  arguments of the dataclass and no other key.
\<close>

definition Decision_fields :: "string list" where
  "Decision_fields = [''production'', ''price'', ''marketing'']"

definition Decision_from_dict :: "real dict \<Rightarrow> py_error + Decision" where
  "Decision_from_dict decision =
     (case (map_of decision ''production'', map_of decision ''price'',
            map_of decision ''marketing'') of
        (Some p, Some pr, Some m) \<Rightarrow>
          if list_all (\<lambda>k. k \<in> set Decision_fields) (map fst decision)
          then Inr \<lparr>Decision.production = p, Decision.price = pr, Decision.marketing = m\<rparr>
          else Inl TypeError
      | _ \<Rightarrow> Inl TypeError)"

definition simulate_quarter ::
  "FinancialSnapshot \<Rightarrow> real dict \<Rightarrow> py_error + FinancialSnapshot" where
  "simulate_quarter previous decision =
     (case Decision_from_dict decision of
        Inl e \<Rightarrow> Inl e
      | Inr decision_obj \<Rightarrow>
         (let demand = calculate_demand decision_obj;
              available_units = Decision.production decision_obj + inventory previous;
              units_sold_v = min demand available_units;
              revenue_v = units_sold_v * Decision.price decision_obj;
              cogs_v = units_sold_v * cost_per_unit SIMULATION_CONSTANTS;
              gross_profit_v = revenue_v - cogs_v;
              operating_expenses_v =
                fixed_opex SIMULATION_CONSTANTS + Decision.marketing decision_obj;
              ebit_v = gross_profit_v - operating_expenses_v;
              taxes_v = max 0 (ebit_v * tax_rate SIMULATION_CONSTANTS);
              net_income_v = ebit_v - taxes_v;
              cash_change =
                revenue_v
                - (Decision.production decision_obj * cost_per_unit SIMULATION_CONSTANTS)
                - operating_expenses_v;
              new_cash = cash previous + cash_change;
              debt_v = max 0 (- new_cash);
              adjusted_cash = max 0 new_cash;
              new_inventory =
                inventory previous + Decision.production decision_obj - units_sold_v;
              new_equity = equity previous + net_income_v;
              snapshot =
                \<lparr>quarter = quarter previous + 1, cash = adjusted_cash,
                 inventory = new_inventory, equity = new_equity, debt = debt_v,
                 revenue = revenue_v, cogs = cogs_v, gross_profit = gross_profit_v,
                 operating_expenses = operating_expenses_v, ebit = ebit_v, taxes = taxes_v,
                 net_income = net_income_v, units_sold = units_sold_v,
                 liquidity_ratio = Finite 0, net_margin = 0,
                 price = Decision.price decision_obj,
                 marketing = Decision.marketing decision_obj,
                 production = Decision.production decision_obj\<rparr>
          in case calculate_ratios snapshot of
               Inl e \<Rightarrow> Inl e
             | Inr (liquidity_ratio_v, net_margin_v) \<Rightarrow>
                 Inr (snapshot\<lparr>liquidity_ratio := liquidity_ratio_v,
                                net_margin := net_margin_v\<rparr>)))"


section \<open>cfa\_questions.py\<close>

text \<open>
  The display strings of the catalog (\<^verbatim>\<open>Question.prompt\<close>, \<^verbatim>\<open>QuestionOption.text\<close>)
  are read by no operation and are left out of the records. The field \<^verbatim>\<open>id\<close> of a
  question, of an option and of a session is written \<open>id_question\<close>, \<open>id_option\<close>
  and \<open>id_session\<close>.
\<close>

record QuestionOption =
  id_option :: string
  impact :: "real dict"

record Question =
  id_question :: string
  options :: "QuestionOption list"

definition apply_option_impact :: "real dict \<Rightarrow> QuestionOption \<Rightarrow> real dict" where
  "apply_option_impact decision option =
     (let production_v =
            max 0 (dict_get decision ''production'' 0
                     * dict_get (impact option) ''production_multiplier'' 1
                   + dict_get (impact option) ''production_delta'' 0);
          price_v =
            max 0 (dict_get decision ''price'' 0
                     * dict_get (impact option) ''price_multiplier'' 1
                   + dict_get (impact option) ''price_delta'' 0);
          marketing_v =
            max 0 (dict_get decision ''marketing'' 0
                     * dict_get (impact option) ''marketing_multiplier'' 1
                   + dict_get (impact option) ''marketing_delta'' 0)
      in [(''production'', production_v), (''price'', price_v), (''marketing'', marketing_v)])"

definition QUESTION_BANK :: "Question list" where
  "QUESTION_BANK =
     [
      \<lparr>id_question = ''q01'', options =
         [\<lparr>id_option = ''A'', impact = [(''price_delta'', 1)]\<rparr>,
          \<lparr>id_option = ''B'', impact = [(''marketing_multiplier'', 1.25)]\<rparr>,
          \<lparr>id_option = ''C'', impact = [(''production_multiplier'', 0.9)]\<rparr>]\<rparr>,
      \<lparr>id_question = ''q02'', options =
         [\<lparr>id_option = ''A'', impact = [(''price_multiplier'', 0.95)]\<rparr>,
          \<lparr>id_option = ''B'', impact = [(''price_multiplier'', 0.97), (''production_multiplier'', 1.05)]\<rparr>,
          \<lparr>id_option = ''C'', impact = [(''marketing_multiplier'', 1.2)]\<rparr>]\<rparr>,
      \<lparr>id_question = ''q03'', options =
         [\<lparr>id_option = ''A'', impact = [(''marketing_multiplier'', 0.8)]\<rparr>,
          \<lparr>id_option = ''B'', impact = [(''production_multiplier'', 0.9)]\<rparr>,
          \<lparr>id_option = ''C'', impact = [(''price_delta'', 2)]\<rparr>]\<rparr>,
      \<lparr>id_question = ''q04'', options =
         [\<lparr>id_option = ''A'', impact = [(''production_multiplier'', 1.15)]\<rparr>,
          \<lparr>id_option = ''B'', impact = [(''production_multiplier'', 1)]\<rparr>,
          \<lparr>id_option = ''C'', impact = [(''price_multiplier'', 0.98)]\<rparr>]\<rparr>,
      \<lparr>id_question = ''q05'', options =
         [\<lparr>id_option = ''A'', impact = [(''marketing_delta'', 500)]\<rparr>,
          \<lparr>id_option = ''B'', impact = [(''marketing_delta'', 250), (''price_multiplier'', 1.01)]\<rparr>,
          \<lparr>id_option = ''C'', impact = [(''production_multiplier'', 1.05)]\<rparr>]\<rparr>,
      \<lparr>id_question = ''q06'', options =
         [\<lparr>id_option = ''A'', impact = [(''price_multiplier'', 0.97)]\<rparr>,
          \<lparr>id_option = ''B'', impact = [(''price_multiplier'', 0.985), (''marketing_multiplier'', 1.15)]\<rparr>,
          \<lparr>id_option = ''C'', impact = [(''production_multiplier'', 0.9)]\<rparr>]\<rparr>,
      \<lparr>id_question = ''q07'', options =
         [\<lparr>id_option = ''A'', impact = [(''production_multiplier'', 1.1)]\<rparr>,
          \<lparr>id_option = ''B'', impact = [(''marketing_multiplier'', 1.1)]\<rparr>,
          \<lparr>id_option = ''C'', impact = [(''production_multiplier'', 1.05), (''price_delta'', 1)]\<rparr>]\<rparr>,
      \<lparr>id_question = ''q08'', options =
         [\<lparr>id_option = ''A'', impact = [(''marketing_multiplier'', 1.3)]\<rparr>,
          \<lparr>id_option = ''B'', impact = [(''price_multiplier'', 1.02)]\<rparr>,
          \<lparr>id_option = ''C'', impact = []\<rparr>]\<rparr>,
      \<lparr>id_question = ''q09'', options =
         [\<lparr>id_option = ''A'', impact = [(''price_multiplier'', 0.96), (''marketing_multiplier'', 1.2)]\<rparr>,
          \<lparr>id_option = ''B'', impact = [(''marketing_multiplier'', 1.1)]\<rparr>,
          \<lparr>id_option = ''C'', impact = [(''production_multiplier'', 0.92)]\<rparr>]\<rparr>,
      \<lparr>id_question = ''q10'', options =
         [\<lparr>id_option = ''A'', impact = [(''marketing_multiplier'', 0.9), (''price_delta'', 1)]\<rparr>,
          \<lparr>id_option = ''B'', impact = [(''price_delta'', 1)]\<rparr>,
          \<lparr>id_option = ''C'', impact = [(''production_multiplier'', 1.08)]\<rparr>]\<rparr>,
      \<lparr>id_question = ''q11'', options =
         [\<lparr>id_option = ''A'', impact = [(''production_multiplier'', 1.15)]\<rparr>,
          \<lparr>id_option = ''B'', impact = [(''marketing_multiplier'', 1.4)]\<rparr>,
          \<lparr>id_option = ''C'', impact = [(''price_multiplier'', 1.05), (''marketing_multiplier'', 1.05)]\<rparr>]\<rparr>,
      \<lparr>id_question = ''q12'', options =
         [\<lparr>id_option = ''A'', impact = [(''price_multiplier'', 0.98), (''production_multiplier'', 1.07)]\<rparr>,
          \<lparr>id_option = ''B'', impact = []\<rparr>,
          \<lparr>id_option = ''C'', impact = [(''marketing_multiplier'', 1.15)]\<rparr>]\<rparr>,
      \<lparr>id_question = ''q13'', options =
         [\<lparr>id_option = ''A'', impact = [(''production_multiplier'', 1.12)]\<rparr>,
          \<lparr>id_option = ''B'', impact = []\<rparr>,
          \<lparr>id_option = ''C'', impact = [(''production_multiplier'', 1.05), (''price_delta'', 1)]\<rparr>]\<rparr>,
      \<lparr>id_question = ''q14'', options =
         [\<lparr>id_option = ''A'', impact = [(''marketing_multiplier'', 0.85), (''price_multiplier'', 1.01)]\<rparr>,
          \<lparr>id_option = ''B'', impact = [(''production_multiplier'', 1.08)]\<rparr>,
          \<lparr>id_option = ''C'', impact = [(''marketing_multiplier'', 1.05)]\<rparr>]\<rparr>,
      \<lparr>id_question = ''q15'', options =
         [\<lparr>id_option = ''A'', impact = [(''production_multiplier'', 1.18)]\<rparr>,
          \<lparr>id_option = ''B'', impact = [(''price_multiplier'', 1.03)]\<rparr>,
          \<lparr>id_option = ''C'', impact = [(''production_multiplier'', 1.08), (''price_multiplier'', 1.01)]\<rparr>]\<rparr>,
      \<lparr>id_question = ''q16'', options =
         [\<lparr>id_option = ''A'', impact = [(''production_multiplier'', 0.88)]\<rparr>,
          \<lparr>id_option = ''B'', impact = [(''price_multiplier'', 1.02)]\<rparr>,
          \<lparr>id_option = ''C'', impact = [(''marketing_multiplier'', 1.18)]\<rparr>]\<rparr>,
      \<lparr>id_question = ''q17'', options =
         [\<lparr>id_option = ''A'', impact = [(''price_multiplier'', 1.04)]\<rparr>,
          \<lparr>id_option = ''B'', impact = [(''marketing_multiplier'', 1.25)]\<rparr>,
          \<lparr>id_option = ''C'', impact = [(''production_multiplier'', 1.1)]\<rparr>]\<rparr>,
      \<lparr>id_question = ''q18'', options =
         [\<lparr>id_option = ''A'', impact = [(''marketing_multiplier'', 1.35)]\<rparr>,
          \<lparr>id_option = ''B'', impact = [(''price_multiplier'', 0.98)]\<rparr>,
          \<lparr>id_option = ''C'', impact = [(''production_multiplier'', 1.06), (''price_multiplier'', 1.01)]\<rparr>]\<rparr>,
      \<lparr>id_question = ''q19'', options =
         [\<lparr>id_option = ''A'', impact = [(''price_multiplier'', 1.06), (''marketing_multiplier'', 1.1)]\<rparr>,
          \<lparr>id_option = ''B'', impact = [(''price_multiplier'', 1.03)]\<rparr>,
          \<lparr>id_option = ''C'', impact = [(''production_multiplier'', 0.95)]\<rparr>]\<rparr>,
      \<lparr>id_question = ''q20'', options =
         [\<lparr>id_option = ''A'', impact = [(''production_multiplier'', 1.2)]\<rparr>,
          \<lparr>id_option = ''B'', impact = [(''production_multiplier'', 1.1), (''marketing_multiplier'', 1.05)]\<rparr>,
          \<lparr>id_option = ''C'', impact = [(''price_multiplier'', 1.01)]\<rparr>]\<rparr>
     ]"

text \<open>
  \<^verbatim>\<open>QUESTION_INDEX = {q.id: q for q in QUESTION_BANK}\<close>: the comprehension stores the
  questions one after the other.
\<close>

definition QUESTION_INDEX :: "Question dict" where
  "QUESTION_INDEX = foldl (\<lambda>d q. dict_set d (id_question q) q) [] QUESTION_BANK"

text \<open>
  The random source is the sequence of the draws to come. \<^verbatim>\<open>random.choice(seq)\<close>
  raises IndexError on an empty sequence and otherwise returns the element at an index
  drawn from \<^verbatim>\<open>range(len(seq))\<close>: the next draw, reduced modulo the length, so that
  every index is the result of some draw. It leaves the rest of the sequence for the
  later calls.
\<close>

type_synonym rng = "nat \<Rightarrow> nat"

definition choice :: "'a list \<Rightarrow> rng \<Rightarrow> py_error + ('a \<times> rng)" where
  "choice seq g =
     (if seq = [] then Inl IndexError
      else Inr (seq ! (g 0 mod length seq), \<lambda>i. g (Suc i)))"

text \<open>
  \<^verbatim>\<open>not exclude_ids\<close> holds for \<^verbatim>\<open>None\<close> and for an empty sequence.
\<close>

definition pick_random_question ::
  "string list option \<Rightarrow> rng \<Rightarrow> py_error + (Question \<times> rng)" where
  "pick_random_question exclude_ids g =
     (let available =
            filter (\<lambda>q. case exclude_ids of
                            None \<Rightarrow> True
                          | Some ids \<Rightarrow> ids = [] \<or> id_question q \<notin> set ids)
                   QUESTION_BANK;
          available' = (if available = [] then QUESTION_BANK else available)
      in choice available' g)"


section \<open>session\_service.py\<close>

record Company =
  name :: string
  financials :: "FinancialSnapshot list"
  decisions :: "real dict"
  agent_chat :: "string list"
  active_question_id :: "string option"
  selected_option_id :: "string option"
  question_history :: "string list option"

record Session =
  id_session :: string
  game_code :: string
  game_status :: string
  current_quarter :: int
  last_update_time :: int
  companies :: "Company dict"

text \<open>
  \<^verbatim>\<open>InMemorySessionRepository\<close> holds one dict of sessions; \<open>save\<close> stores a session
  under its own id and returns the new dict.
\<close>

type_synonym repository = "Session dict"

definition get_by_id :: "repository \<Rightarrow> string \<Rightarrow> Session option" where
  "get_by_id sessions session_id = map_of sessions session_id"

definition save :: "repository \<Rightarrow> Session \<Rightarrow> repository" where
  "save sessions session = dict_set sessions (id_session session) session"

text \<open>
  \<^verbatim>\<open>list(company.question_history or [])\<close>: \<^verbatim>\<open>None\<close> and the empty list give the
  empty list.
\<close>

definition history_of :: "Company \<Rightarrow> string list" where
  "history_of company = (case question_history company of None \<Rightarrow> [] | Some h \<Rightarrow> h)"

text \<open>
  The loop of \<^verbatim>\<open>assign_quarter_questions\<close> over \<^verbatim>\<open>session.companies.items()\<close>. The keys
  of a dict are distinct, so each \<^verbatim>\<open>updated_companies[company_id] = ...\<close> adds a new
  item after the ones stored before it.
\<close>

fun assign_companies :: "rng \<Rightarrow> Company dict \<Rightarrow> py_error + (Company dict \<times> rng)" where
  "assign_companies g [] = Inr ([], g)"
| "assign_companies g ((company_id, company) # rest) =
     (let history = history_of company
      in case pick_random_question (Some history) g of
           Inl e \<Rightarrow> Inl e
         | Inr (question, g') \<Rightarrow>
            (let history' = history @ [id_question question];
                 updated =
                   \<lparr>name = name company, financials = financials company,
                    decisions = decisions company, agent_chat = agent_chat company,
                    active_question_id = Some (id_question question),
                    selected_option_id = None, question_history = Some history'\<rparr>
             in case assign_companies g' rest of
                  Inl e \<Rightarrow> Inl e
                | Inr (updated_companies, g'') \<Rightarrow>
                    Inr ((company_id, updated) # updated_companies, g'')))"

text \<open>
  A Session object is always truthy, so \<^verbatim>\<open>if not session\<close> is the test for
  \<^verbatim>\<open>None\<close>. The operations return the updated session, the repository after
  \<^verbatim>\<open>save\<close> and the random source that is left.
\<close>

definition assign_quarter_questions ::
  "repository \<Rightarrow> string \<Rightarrow> rng \<Rightarrow> py_error + (Session \<times> repository \<times> rng)" where
  "assign_quarter_questions sessions session_id g =
     (case get_by_id sessions session_id of
        None \<Rightarrow> Inl ValueError
      | Some session \<Rightarrow>
         (case assign_companies g (companies session) of
            Inl e \<Rightarrow> Inl e
          | Inr (updated_companies, g') \<Rightarrow>
             (let updated_session =
                    \<lparr>id_session = id_session session, game_code = game_code session,
                     game_status = game_status session,
                     current_quarter = current_quarter session,
                     last_update_time = last_update_time session,
                     companies = updated_companies\<rparr>
              in Inr (updated_session, save sessions updated_session, g'))))"

text \<open>
  The body of the loop of \<^verbatim>\<open>close_quarter\<close> for one company.
  \<^verbatim>\<open>company.active_question_id or pick_random_question().id\<close> draws a question when
  the id is \<^verbatim>\<open>None\<close> or the empty string, and only then. Question and QuestionOption
  objects are always truthy, so the walrus test and \<^verbatim>\<open>if selected_option\<close> are tests
  for \<^verbatim>\<open>None\<close>; \<^verbatim>\<open>option.id == company.selected_option_id\<close> is false when no option
  is selected.
\<close>

definition resolve_question_id :: "Company \<Rightarrow> rng \<Rightarrow> py_error + (string \<times> rng)" where
  "resolve_question_id company g =
     (case active_question_id company of
        Some a \<Rightarrow>
          if a \<noteq> [] then Inr (a, g)
          else (case pick_random_question None g of
                  Inl e \<Rightarrow> Inl e
                | Inr (q, g') \<Rightarrow> Inr (id_question q, g'))
      | None \<Rightarrow>
          (case pick_random_question None g of
             Inl e \<Rightarrow> Inl e
           | Inr (q, g') \<Rightarrow> Inr (id_question q, g')))"

definition close_company :: "rng \<Rightarrow> Company \<Rightarrow> py_error + (Company \<times> rng)" where
  "close_company g company =
     (if financials company = [] then Inl IndexError
      else
       (let previous_financials = last (financials company);
            base_decision = decisions company
        in case resolve_question_id company g of
             Inl e \<Rightarrow> Inl e
           | Inr (question_id, g') \<Rightarrow>
              (let selected_option =
                     (case map_of QUESTION_INDEX question_id of
                        None \<Rightarrow> None
                      | Some question \<Rightarrow>
                          find (\<lambda>option. Some (id_option option) = selected_option_id company)
                               (options question));
                   effective_decision =
                     (case selected_option of
                        Some option \<Rightarrow> apply_option_impact base_decision option
                      | None \<Rightarrow> base_decision)
               in case simulate_quarter previous_financials effective_decision of
                    Inl e \<Rightarrow> Inl e
                  | Inr result \<Rightarrow>
                     (let history = history_of company;
                          history' =
                            (if history = [] \<or> last history \<noteq> question_id
                             then history @ [question_id] else history)
                      in Inr (\<lparr>name = name company,
                               financials = financials company @ [result],
                               decisions = [], agent_chat = agent_chat company,
                               active_question_id = None, selected_option_id = None,
                               question_history = Some history'\<rparr>, g')))))"

fun close_companies :: "rng \<Rightarrow> Company dict \<Rightarrow> py_error + (Company dict \<times> rng)" where
  "close_companies g [] = Inr ([], g)"
| "close_companies g ((company_id, company) # rest) =
     (case close_company g company of
        Inl e \<Rightarrow> Inl e
      | Inr (updated, g') \<Rightarrow>
         (case close_companies g' rest of
            Inl e \<Rightarrow> Inl e
          | Inr (updated_companies, g'') \<Rightarrow>
              Inr ((company_id, updated) # updated_companies, g'')))"

text \<open>
  \<^verbatim>\<open>f"Q{next_quarter}"\<close> prints the integer in decimal.
\<close>

function str_nat :: "nat \<Rightarrow> string" where
  "str_nat n =
     (if n < 10 then [''0123456789'' ! n]
      else str_nat (n div 10) @ [''0123456789'' ! (n mod 10)])"
  by pat_completeness auto
termination
  by (relation "measure (\<lambda>n. n)") auto

declare str_nat.simps [simp del]

definition str_int :: "int \<Rightarrow> string" where
  "str_int i = (if i < 0 then ''-'' @ str_nat (nat (- i)) else str_nat (nat i))"

definition close_quarter ::
  "repository \<Rightarrow> string \<Rightarrow> rng \<Rightarrow> py_error + (Session \<times> repository \<times> rng)" where
  "close_quarter sessions session_id g =
     (case get_by_id sessions session_id of
        None \<Rightarrow> Inl ValueError
      | Some session \<Rightarrow>
         (case close_companies g (companies session) of
            Inl e \<Rightarrow> Inl e
          | Inr (updated_companies, g') \<Rightarrow>
             (let next_quarter = current_quarter session + 1;
                  game_status_v =
                    (if next_quarter > 4 then ''Finished'' else ''Q'' @ str_int next_quarter);
                  updated_session =
                    \<lparr>id_session = id_session session, game_code = game_code session,
                     game_status = game_status_v, current_quarter = next_quarter,
                     last_update_time = last_update_time session,
                     companies = updated_companies\<rparr>
              in Inr (updated_session, save sessions updated_session, g'))))"


section \<open>main.py\<close>

text \<open>
  The HTTP layer, without the transport: each endpoint is a function of the repository.
  \<^verbatim>\<open>uuid.uuid4()\<close> and \<^verbatim>\<open>time.time()\<close> are inputs of the model, and the fields of a
  request body are arguments. \<^verbatim>\<open>str.lower\<close> and \<^verbatim>\<open>str.upper\<close> are modelled on the
  ASCII letters.
\<close>

definition INITIAL_FINANCIALS :: "FinancialSnapshot list" where
  "INITIAL_FINANCIALS =
     [\<lparr>quarter = 0, cash = 50000, inventory = 1000, equity = 50000, debt = 0,
       revenue = 0, cogs = 0, gross_profit = 0, operating_expenses = 0, ebit = 0,
       taxes = 0, net_income = 0, units_sold = 0, liquidity_ratio = Finite 0,
       net_margin = 0, price = 0, marketing = 0, production = 0\<rparr>]"

definition str_lower :: "string \<Rightarrow> string" where
  "str_lower s =
     map (\<lambda>c. case map_of (zip ''ABCDEFGHIJKLMNOPQRSTUVWXYZ''
                                 ''abcdefghijklmnopqrstuvwxyz'') c of
                 None \<Rightarrow> c | Some l \<Rightarrow> l) s"

definition str_upper :: "string \<Rightarrow> string" where
  "str_upper s =
     map (\<lambda>c. case map_of (zip ''abcdefghijklmnopqrstuvwxyz''
                                 ''ABCDEFGHIJKLMNOPQRSTUVWXYZ'') c of
                 None \<Rightarrow> c | Some u \<Rightarrow> u) s"

definition str_replace_char :: "char \<Rightarrow> char \<Rightarrow> string \<Rightarrow> string" where
  "str_replace_char old new s = map (\<lambda>c. if c = old then new else c) s"

definition get_question :: "string \<Rightarrow> py_error + Question" where
  "get_question question_id =
     (case map_of QUESTION_INDEX question_id of
        None \<Rightarrow> Inl HTTP404
      | Some question \<Rightarrow> Inr question)"

definition create_session ::
  "repository \<Rightarrow> string list \<Rightarrow> string \<Rightarrow> string \<Rightarrow> int \<Rightarrow> rng
     \<Rightarrow> py_error + (Session \<times> repository \<times> rng)" where
  "create_session sessions company_names uuid_a uuid_b now g =
     (let session_id = uuid_a;
          game_code_v = str_upper (take 6 uuid_b);
          companies_v =
            foldl (\<lambda>cs name_v.
                     dict_set cs (str_replace_char CHR '' '' CHR ''_'' (str_lower name_v))
                       \<lparr>name = name_v, financials = INITIAL_FINANCIALS, decisions = [],
                        agent_chat = [], active_question_id = None,
                        selected_option_id = None, question_history = Some []\<rparr>)
                  [] company_names;
          new_session =
            \<lparr>id_session = session_id, game_code = game_code_v, game_status = ''Q1'',
             current_quarter = 1, last_update_time = now, companies = companies_v\<rparr>
      in assign_quarter_questions (save sessions new_session) session_id g)"

definition get_session :: "repository \<Rightarrow> string \<Rightarrow> py_error + Session" where
  "get_session sessions session_id =
     (case get_by_id sessions session_id of
        None \<Rightarrow> Inl HTTP404
      | Some session \<Rightarrow> Inr session)"

text \<open>
  \<^verbatim>\<open>submit_decision\<close> and \<^verbatim>\<open>submit_answer\<close> assign a field of the company object
  held by the stored session and save the session again. A Company object is always
  truthy, so \<^verbatim>\<open>if not company\<close> is the test for a missing key.
\<close>

definition submit_decision ::
  "repository \<Rightarrow> string \<Rightarrow> string \<Rightarrow> real \<Rightarrow> real \<Rightarrow> real
     \<Rightarrow> py_error + (Session \<times> repository)" where
  "submit_decision sessions session_id company_id production_v price_v marketing_v =
     (case get_by_id sessions session_id of
        None \<Rightarrow> Inl HTTP404
      | Some session \<Rightarrow>
         (case map_of (companies session) company_id of
            None \<Rightarrow> Inl HTTP404
          | Some company \<Rightarrow>
             (let company' =
                    company\<lparr>decisions := [(''production'', production_v),
                                           (''price'', price_v),
                                           (''marketing'', marketing_v)]\<rparr>;
                  session' =
                    session\<lparr>companies := dict_set (companies session) company_id company'\<rparr>
              in Inr (session', save sessions session'))))"

definition submit_answer ::
  "repository \<Rightarrow> string \<Rightarrow> string \<Rightarrow> string \<Rightarrow> py_error + (Session \<times> repository)" where
  "submit_answer sessions session_id company_id option_id =
     (case get_by_id sessions session_id of
        None \<Rightarrow> Inl HTTP404
      | Some session \<Rightarrow>
         (case map_of (companies session) company_id of
            None \<Rightarrow> Inl HTTP404
          | Some company \<Rightarrow>
             (let company' = company\<lparr>selected_option_id := Some option_id\<rparr>;
                  session' =
                    session\<lparr>companies := dict_set (companies session) company_id company'\<rparr>
              in Inr (session', save sessions session'))))"

text \<open>
  The endpoint \<^verbatim>\<open>close_quarter\<close> of main.py (named \<open>close_quarter_main\<close> here, the
  service method being \<open>close_quarter\<close>) turns the ValueError of the service into a 404
  and lets every other exception through.
\<close>

definition http_error :: "py_error \<Rightarrow> py_error" where
  "http_error e = (if e = ValueError then HTTP404 else e)"

definition close_quarter_main ::
  "repository \<Rightarrow> string \<Rightarrow> int \<Rightarrow> rng \<Rightarrow> py_error + (Session \<times> repository \<times> rng)" where
  "close_quarter_main sessions session_id now g =
     (case close_quarter sessions session_id g of
        Inl e \<Rightarrow> Inl (http_error e)
      | Inr (updated_session, sessions', g') \<Rightarrow>
          if game_status updated_session \<noteq> ''Finished''
          then (case assign_quarter_questions sessions' session_id g' of
                  Inl e \<Rightarrow> Inl (http_error e)
                | Inr (assigned, sessions'', g'') \<Rightarrow>
                   (let session_with_new_questions = assigned\<lparr>last_update_time := now\<rparr>
                    in Inr (session_with_new_questions,
                            save sessions'' session_with_new_questions, g'')))
          else Inr (updated_session, sessions', g'))"


section \<open>Reference definitions\<close>

text \<open>
  The question that closing a quarter resolves for a company, as section 4.4 of the
  specification words it: the active question of the company or, when it has none, one
  drawn ad hoc from the whole catalog.
\<close>

definition spec_question_id :: "Company \<Rightarrow> rng \<Rightarrow> string" where
  "spec_question_id company g =
     (case active_question_id company of
        None \<Rightarrow> id_question (QUESTION_BANK ! (g 0 mod length QUESTION_BANK))
      | Some a \<Rightarrow>
          if a = [] then id_question (QUESTION_BANK ! (g 0 mod length QUESTION_BANK))
          else a)"

text \<open>
  The effective decision as the specification words it: look the question up; if it is
  found, search its options for one whose id is the selected option id; if there is a
  match the effective decision is the transform of the base decision by that option,
  and otherwise it is the base decision.
\<close>

definition spec_effective_decision ::
  "real dict \<Rightarrow> string option \<Rightarrow> string \<Rightarrow> real dict" where
  "spec_effective_decision base selected question_id =
     (case find (\<lambda>q. id_question q = question_id) QUESTION_BANK of
        None \<Rightarrow> base
      | Some q \<Rightarrow>
         (case find (\<lambda>option. Some (id_option option) = selected) (options q) of
            None \<Rightarrow> base
          | Some option \<Rightarrow> apply_option_impact base option))"

text \<open>
  The status of the game at a quarter, the position of a status on the path Q1, Q2, Q3,
  Q4, Finished (0 for any other string), and the sessions whose status is the one of
  their quarter: the sessions that \<open>create_session\<close> builds and the operations keep.
\<close>

definition status_for_quarter :: "int \<Rightarrow> string" where
  "status_for_quarter q = (if 4 < q then ''Finished'' else ''Q'' @ str_int q)"

definition status_rank :: "string \<Rightarrow> nat" where
  "status_rank st =
     (if st = ''Q1'' then 1 else if st = ''Q2'' then 2 else if st = ''Q3'' then 3
      else if st = ''Q4'' then 4 else if st = ''Finished'' then 5 else 0)"

definition status_consistent :: "Session \<Rightarrow> bool" where
  "status_consistent session =
     (1 \<le> current_quarter session
      \<and> game_status session = status_for_quarter (current_quarter session))"

text \<open>
  The operations on a stored session that the HTTP layer offers, and the service method
  \<^verbatim>\<open>close_quarter\<close> on its own.
\<close>

datatype operation =
    AssignQuarterQuestions
  | SubmitDecision string real real real
  | SubmitAnswer string string
  | CloseQuarter
  | CloseQuarterMain int

fun run_operation ::
  "operation \<Rightarrow> repository \<Rightarrow> string \<Rightarrow> rng
     \<Rightarrow> py_error + (Session \<times> repository \<times> rng)" where
  "run_operation AssignQuarterQuestions sessions session_id g =
     assign_quarter_questions sessions session_id g"
| "run_operation (SubmitDecision company_id production_v price_v marketing_v)
     sessions session_id g =
     (case submit_decision sessions session_id company_id production_v price_v marketing_v of
        Inl e \<Rightarrow> Inl e
      | Inr (session, sessions') \<Rightarrow> Inr (session, sessions', g))"
| "run_operation (SubmitAnswer company_id option_id) sessions session_id g =
     (case submit_answer sessions session_id company_id option_id of
        Inl e \<Rightarrow> Inl e
      | Inr (session, sessions') \<Rightarrow> Inr (session, sessions', g))"
| "run_operation CloseQuarter sessions session_id g = close_quarter sessions session_id g"
| "run_operation (CloseQuarterMain now) sessions session_id g =
     close_quarter_main sessions session_id now g"

text \<open>
  A company can be closed when it has a financial history and a pending decision that
  \<^verbatim>\<open>Decision(**decision)\<close> accepts.
\<close>

definition has_decision :: "Company \<Rightarrow> bool" where
  "has_decision company =
     (case Decision_from_dict (decisions company) of Inl e \<Rightarrow> False | Inr d \<Rightarrow> True)"

definition company_closable :: "Company \<Rightarrow> bool" where
  "company_closable company = (financials company \<noteq> [] \<and> has_decision company)"


section \<open>Example states\<close>

text \<open>
  States used as examples: the random source whose draws are all 0, a company that has
  no active question and has answered A, and the company and the session of the
  repository's test of close\_quarter.
\<close>

definition zero_draws :: rng where
  "zero_draws = (\<lambda>i. 0)"

definition company_without_question :: Company where
  "company_without_question =
     \<lparr>name = ''Gamma'', financials = INITIAL_FINANCIALS,
      decisions = [(''production'', 1000), (''price'', 50), (''marketing'', 2000)],
      agent_chat = [], active_question_id = None, selected_option_id = Some ''A'',
      question_history = Some []\<rparr>"

definition company_with_answer :: Company where
  "company_with_answer =
     \<lparr>name = ''Gamma'', financials = INITIAL_FINANCIALS,
      decisions = [(''production'', 800), (''price'', 52), (''marketing'', 1000)],
      agent_chat = [], active_question_id = Some ''q03'', selected_option_id = Some ''A'',
      question_history = Some []\<rparr>"

definition gamma_session :: Session where
  "gamma_session =
     \<lparr>id_session = ''s1'', game_code = ''CODE1'', game_status = ''Q1'', current_quarter = 1,
      last_update_time = 0, companies = [(''gamma'', company_with_answer)]\<rparr>"

text \<open>
  A finished session as close\_quarter leaves it (no pending decision, no active
  question), the same session after a decision was submitted again, and a session in
  its fourth quarter.
\<close>

definition finished_session :: Session where
  "finished_session =
     \<lparr>id_session = ''s1'', game_code = ''AB12CD'', game_status = ''Finished'',
      current_quarter = 5, last_update_time = 0,
      companies =
        [(''alpha_corp'',
          \<lparr>name = ''Alpha Corp'', financials = INITIAL_FINANCIALS, decisions = [],
           agent_chat = [], active_question_id = None, selected_option_id = None,
           question_history = Some [''q01'', ''q02'', ''q03'', ''q04'']\<rparr>)]\<rparr>"

definition finished_session_with_decision :: Session where
  "finished_session_with_decision =
     \<lparr>id_session = ''s1'', game_code = ''AB12CD'', game_status = ''Finished'',
      current_quarter = 5, last_update_time = 0,
      companies =
        [(''alpha_corp'',
          \<lparr>name = ''Alpha Corp'', financials = INITIAL_FINANCIALS,
           decisions = [(''production'', 1500), (''price'', 55), (''marketing'', 2000)],
           agent_chat = [], active_question_id = None, selected_option_id = None,
           question_history = Some [''q01'', ''q02'', ''q03'', ''q04'']\<rparr>)]\<rparr>"

definition quarter4_session :: Session where
  "quarter4_session =
     \<lparr>id_session = ''s1'', game_code = ''AB12CD'', game_status = ''Q4'',
      current_quarter = 4, last_update_time = 0,
      companies =
        [(''alpha_corp'',
          \<lparr>name = ''Alpha Corp'', financials = INITIAL_FINANCIALS,
           decisions = [(''production'', 1500), (''price'', 55), (''marketing'', 2000)],
           agent_chat = [], active_question_id = Some ''q04'', selected_option_id = Some ''B'',
           question_history = Some [''q01'', ''q02'', ''q03'', ''q04'']\<rparr>)]\<rparr>"

text \<open>
  A company that has a question but has submitted neither a decision nor an answer, as
  \<open>create_session\<close> leaves it.
\<close>

definition company_without_decision :: Company where
  "company_without_decision =
     \<lparr>name = ''Alpha Corp'', financials = INITIAL_FINANCIALS, decisions = [],
      agent_chat = [], active_question_id = Some ''q01'', selected_option_id = None,
      question_history = Some [''q01'']\<rparr>"


section \<open>Properties\<close>

lemma Decision_from_dict_three:
  "Decision_from_dict [(''production'', p), (''price'', pr), (''marketing'', m)] =
     Inr \<lparr>Decision.production = p, Decision.price = pr, Decision.marketing = m\<rparr>"
  by (simp add: Decision_from_dict_def Decision_fields_def)

lemma calculate_ratios_eq:
  "calculate_ratios s =
     Inr (if debt s = 0 then Infinity else Finite ((cash s + inventory s) / debt s),
          if revenue s = 0 then 0 else net_income s / revenue s)"
  by (simp add: calculate_ratios_def py_div_def Let_def)

lemma simulate_quarter_fields:
  assumes "Decision_from_dict decision = Inr d"
  shows "\<exists>s. simulate_quarter previous decision = Inr s
           \<and> quarter s = quarter previous + 1
           \<and> units_sold s =
               min (calculate_demand d) (Decision.production d + inventory previous)
           \<and> revenue s = units_sold s * Decision.price d
           \<and> operating_expenses s = fixed_opex SIMULATION_CONSTANTS + Decision.marketing d
           \<and> cash s =
               max 0 (cash previous
                      + (revenue s
                         - Decision.production d * cost_per_unit SIMULATION_CONSTANTS
                         - operating_expenses s))
           \<and> debt s =
               max 0 (- (cash previous
                         + (revenue s
                            - Decision.production d * cost_per_unit SIMULATION_CONSTANTS
                            - operating_expenses s)))
           \<and> net_margin s = (if revenue s = 0 then 0 else net_income s / revenue s)
           \<and> liquidity_ratio s =
               (if debt s = 0 then Infinity
                else Finite ((cash s + inventory s) / debt s))"
  using assms
  by (simp add: simulate_quarter_def calculate_ratios_eq Let_def)

lemma simulate_quarter_debt_irrelevant:
  "simulate_quarter (previous\<lparr>debt := x\<rparr>) decision = simulate_quarter previous decision"
  by (cases "Decision_from_dict decision")
    (simp_all add: simulate_quarter_def Let_def calculate_ratios_eq)

lemma simulate_quarter_Inr_decision:
  assumes "simulate_quarter previous decision = Inr s"
  shows "\<exists>d. Decision_from_dict decision = Inr d"
proof (cases "Decision_from_dict decision")
  case (Inl e)
  then have "simulate_quarter previous decision = Inl e"
    by (simp add: simulate_quarter_def)
  with assms show ?thesis by simp
next
  case (Inr d)
  then show ?thesis by blast
qed

lemma simulate_quarter_error:
  "simulate_quarter previous decision = Inl e \<Longrightarrow> e = TypeError \<and> Decision_from_dict decision = Inl TypeError"
proof (cases "Decision_from_dict decision")
  case (Inl e')
  assume a: "simulate_quarter previous decision = Inl e"
  from Inl have "e' = TypeError"
    by (auto simp: Decision_from_dict_def split: option.splits if_splits)
  moreover from Inl have "simulate_quarter previous decision = Inl e'"
    by (simp add: simulate_quarter_def)
  ultimately show ?thesis using a Inl by simp
next
  case (Inr d)
  assume a: "simulate_quarter previous decision = Inl e"
  from simulate_quarter_fields [OF Inr, of previous] a show ?thesis by auto
qed

lemma profitable_quarter:
  "\<exists>s. simulate_quarter (hd INITIAL_FINANCIALS)
          [(''production'', 1500), (''price'', 55), (''marketing'', 2000)] = Inr s
       \<and> revenue s = 71500 \<and> net_income s = 21600 \<and> operating_expenses s = 12000
       \<and> cash s = 72000 \<and> debt s = 0"
  by (simp add: simulate_quarter_def Decision_from_dict_three calculate_demand_def
      calculate_ratios_eq SIMULATION_CONSTANTS_def INITIAL_FINANCIALS_def Let_def)

text \<open>
  C1. simulate\_quarter reproduces the two worked examples: from the seed state
  (cash 50000, inventory 1000, equity 50000, no debt) the decision production 1500,
  price 55, marketing 2000 gives quarter 1, 1300 units sold, revenue 71500, cogs 32500,
  operating expenses 12000, ebit 27000, taxes 5400, net income 21600, cash 72000,
  inventory 1200, no debt, equity 71600; and from cash 1000, inventory 0, equity 1000 the
  decision production 0, price 30, marketing 0 gives no unit sold, net income -10000,
  cash 0, debt 9000, equity -9000, liquidity ratio 0 and net margin 0. The other fields
  of the previous state are arbitrary.
\<close>

theorem simulate_quarter_worked_examples:
  "(\<exists>s. simulate_quarter
          (p\<lparr>quarter := 0, cash := 50000, inventory := 1000, equity := 50000, debt := 0\<rparr>)
          [(''production'', 1500), (''price'', 55), (''marketing'', 2000)] = Inr s
        \<and> quarter s = 1 \<and> units_sold s = 1300 \<and> revenue s = 71500 \<and> cogs s = 32500
        \<and> operating_expenses s = 12000 \<and> ebit s = 27000 \<and> taxes s = 5400
        \<and> net_income s = 21600 \<and> cash s = 72000 \<and> inventory s = 1200 \<and> debt s = 0
        \<and> equity s = 71600)
   \<and> (\<exists>s. simulate_quarter
          (p'\<lparr>quarter := 0, cash := 1000, inventory := 0, equity := 1000, debt := 0\<rparr>)
          [(''production'', 0), (''price'', 30), (''marketing'', 0)] = Inr s
        \<and> units_sold s = 0 \<and> net_income s = - 10000 \<and> cash s = 0 \<and> debt s = 9000
        \<and> equity s = - 9000 \<and> liquidity_ratio s = Finite 0 \<and> net_margin s = 0)"
  by (simp add: simulate_quarter_def Decision_from_dict_three calculate_demand_def
      calculate_ratios_def py_div_def SIMULATION_CONSTANTS_def Let_def)

text \<open>
  C2. For every previous state with a non-negative inventory and every decision with
  non-negative production, price and marketing, simulate\_quarter returns a snapshot
  whose units sold are the minimum of the demand, which is the maximum of 0 and
  base demand + (reference price - price) * price elasticity + marketing * marketing
  effect per dollar, and of production plus the previous inventory; and the units sold
  are not negative.
\<close>

theorem units_sold_min_demand:
  assumes "Decision_from_dict decision = Inr d"
    and "0 \<le> inventory previous"
    and "0 \<le> Decision.production d" and "0 \<le> Decision.price d"
    and "0 \<le> Decision.marketing d"
  shows "\<exists>s. simulate_quarter previous decision = Inr s
           \<and> units_sold s =
               min (max 0 (base_demand SIMULATION_CONSTANTS
                           + (reference_price SIMULATION_CONSTANTS - Decision.price d)
                               * price_elasticity SIMULATION_CONSTANTS
                           + Decision.marketing d
                               * marketing_effect_per_dollar SIMULATION_CONSTANTS))
                   (Decision.production d + inventory previous)
           \<and> 0 \<le> units_sold s"
  using assms
  by (simp add: simulate_quarter_def calculate_ratios_eq calculate_demand_def Let_def)

theorem units_sold_min_demand_witness:
  "Decision_from_dict [(''production'', 1500), (''price'', 55), (''marketing'', 2000)] =
     Inr \<lparr>Decision.production = 1500, Decision.price = 55, Decision.marketing = 2000\<rparr>
   \<and> 0 \<le> inventory (hd INITIAL_FINANCIALS)
   \<and> (\<exists>s. simulate_quarter (hd INITIAL_FINANCIALS)
              [(''production'', 1500), (''price'', 55), (''marketing'', 2000)] = Inr s
            \<and> units_sold s = 1300 \<and> 0 \<le> units_sold s)"
  using units_sold_min_demand [OF Decision_from_dict_three, of "hd INITIAL_FINANCIALS" 1500 55 2000]
  by (simp add: Decision_from_dict_three INITIAL_FINANCIALS_def SIMULATION_CONSTANTS_def)

text \<open>
  C3. In every snapshot that simulate\_quarter returns, debt and cash come from the
  quarter's cash flow alone: with new\_cash the previous cash plus revenue minus
  production times the unit cost minus the operating expenses, a negative new\_cash
  gives debt = -new\_cash and cash = 0, and otherwise debt = 0 and cash = new\_cash.
  Cash and debt are never negative, and the same snapshot is returned whatever the debt
  of the previous state is.
\<close>

theorem debt_from_shortfall:
  assumes "simulate_quarter previous decision = Inr s"
    and "Decision_from_dict decision = Inr d"
  shows "(let new_cash = cash previous + revenue s
                         - Decision.production d * cost_per_unit SIMULATION_CONSTANTS
                         - operating_expenses s
          in if new_cash < 0 then debt s = - new_cash \<and> cash s = 0
             else debt s = 0 \<and> cash s = new_cash)
         \<and> 0 \<le> cash s \<and> 0 \<le> debt s
         \<and> simulate_quarter (previous\<lparr>debt := x\<rparr>) decision = Inr s"
proof -
  from simulate_quarter_fields [OF assms(2), of previous] assms(1)
  have c: "cash s =
             max 0 (cash previous
                    + (revenue s
                       - Decision.production d * cost_per_unit SIMULATION_CONSTANTS
                       - operating_expenses s))"
    and b: "debt s =
             max 0 (- (cash previous
                       + (revenue s
                          - Decision.production d * cost_per_unit SIMULATION_CONSTANTS
                          - operating_expenses s)))"
    by auto
  have "simulate_quarter (previous\<lparr>debt := x\<rparr>) decision = Inr s"
    using assms(1) by (simp add: simulate_quarter_debt_irrelevant)
  with c b show ?thesis
    by (simp add: Let_def max_def)
qed

theorem debt_from_shortfall_witness:
  "\<exists>s. simulate_quarter (hd INITIAL_FINANCIALS)
          [(''production'', 1500), (''price'', 55), (''marketing'', 2000)] = Inr s
       \<and> debt s = 0 \<and> cash s = 50000 + revenue s - 1500 * 25 - operating_expenses s
       \<and> simulate_quarter ((hd INITIAL_FINANCIALS)\<lparr>debt := 777\<rparr>)
             [(''production'', 1500), (''price'', 55), (''marketing'', 2000)] = Inr s"
proof -
  from profitable_quarter obtain s where
    s: "simulate_quarter (hd INITIAL_FINANCIALS)
          [(''production'', 1500), (''price'', 55), (''marketing'', 2000)] = Inr s"
    and v: "revenue s = 71500" "operating_expenses s = 12000"
    by blast
  from debt_from_shortfall [OF s Decision_from_dict_three, of 777] v s show ?thesis
    by (simp add: Let_def INITIAL_FINANCIALS_def SIMULATION_CONSTANTS_def)
qed

text \<open>
  C8. The ratios are defined for every snapshot: the net margin is net income over
  revenue, and 0 when the revenue is 0; the liquidity ratio is cash plus inventory over
  debt, and infinity when the debt is 0. No division is reached with a zero divisor:
  calculate\_ratios never raises, and simulate\_quarter never raises ZeroDivisionError.
\<close>

theorem ratios_guarded:
  "calculate_ratios snapshot =
     Inr (if debt snapshot = 0 then Infinity
          else Finite ((cash snapshot + inventory snapshot) / debt snapshot),
          if revenue snapshot = 0 then 0 else net_income snapshot / revenue snapshot)
   \<and> simulate_quarter previous decision \<noteq> Inl ZeroDivisionError
   \<and> (\<forall>s. simulate_quarter previous decision = Inr s \<longrightarrow>
          net_margin s = (if revenue s = 0 then 0 else net_income s / revenue s)
        \<and> liquidity_ratio s =
            (if debt s = 0 then Infinity else Finite ((cash s + inventory s) / debt s)))"
proof (intro conjI allI impI)
  show "simulate_quarter previous decision \<noteq> Inl ZeroDivisionError"
    using simulate_quarter_error [of previous decision ZeroDivisionError] by auto
next
  fix s assume a: "simulate_quarter previous decision = Inr s"
  then obtain d where d: "Decision_from_dict decision = Inr d"
    using simulate_quarter_Inr_decision by blast
  from simulate_quarter_fields [OF d, of previous] a
  show "net_margin s = (if revenue s = 0 then 0 else net_income s / revenue s)"
    and "liquidity_ratio s =
            (if debt s = 0 then Infinity else Finite ((cash s + inventory s) / debt s))"
    by auto
qed (simp add: calculate_ratios_eq)

theorem ratios_guarded_witness:
  "\<exists>s. simulate_quarter (hd INITIAL_FINANCIALS)
          [(''production'', 1500), (''price'', 55), (''marketing'', 2000)] = Inr s
       \<and> net_margin s = 216 / 715 \<and> liquidity_ratio s = Infinity"
proof -
  from profitable_quarter obtain s where
    s: "simulate_quarter (hd INITIAL_FINANCIALS)
          [(''production'', 1500), (''price'', 55), (''marketing'', 2000)] = Inr s"
    and v: "revenue s = 71500" "net_income s = 21600" "debt s = 0"
    by blast
  from ratios_guarded [of s "hd INITIAL_FINANCIALS"
      "[(''production'', 1500), (''price'', 55), (''marketing'', 2000)]"] s v
  show ?thesis by simp
qed

lemma QUESTION_BANK_length: "length QUESTION_BANK = 20"
  by (simp add: QUESTION_BANK_def)

lemma choice_member:
  assumes "seq \<noteq> []"
  shows "\<exists>x g'. choice seq g = Inr (x, g') \<and> x = seq ! (g 0 mod length seq) \<and> x \<in> set seq"
  using assms by (simp add: choice_def)

lemma Decision_from_dict_Inr:
  assumes "Decision_from_dict decision = Inr d"
  shows "map_of decision ''production'' = Some (Decision.production d)"
    and "map_of decision ''price'' = Some (Decision.price d)"
    and "map_of decision ''marketing'' = Some (Decision.marketing d)"
    and "k \<notin> set Decision_fields \<Longrightarrow> map_of decision k = None"
proof -
  from assms obtain p pr m where
    g: "map_of decision ''production'' = Some p" "map_of decision ''price'' = Some pr"
       "map_of decision ''marketing'' = Some m"
    and l: "list_all (\<lambda>k. k \<in> set Decision_fields) (map fst decision)"
    and d: "d = \<lparr>Decision.production = p, Decision.price = pr, Decision.marketing = m\<rparr>"
    by (auto simp: Decision_from_dict_def split: option.splits if_splits)
  from g d show "map_of decision ''production'' = Some (Decision.production d)"
    and "map_of decision ''price'' = Some (Decision.price d)"
    and "map_of decision ''marketing'' = Some (Decision.marketing d)"
    by simp_all
  assume "k \<notin> set Decision_fields"
  with l have "k \<notin> fst ` set decision"
    by (auto simp: list_all_iff)
  then show "map_of decision k = None"
    by (simp add: map_of_eq_None_iff)
qed

lemma Decision_from_dict_empty: "Decision_from_dict [] = Inl TypeError"
  by (simp add: Decision_from_dict_def)

text \<open>
  C7. pick\_random\_question always returns a question of the 20-question catalog and
  never fails. When the exclusion list covers the ids of the whole catalog (and when
  nothing is excluded) the draw is made over the whole catalog, so a repeat is allowed;
  in every other case the id of the returned question is not in the exclusion list.
\<close>

theorem pick_random_question_excludes:
  "\<exists>q g'. pick_random_question exclude_ids g = Inr (q, g')
      \<and> q \<in> set QUESTION_BANK
      \<and> length QUESTION_BANK = 20
      \<and> (case exclude_ids of
            None \<Rightarrow> q = QUESTION_BANK ! (g 0 mod 20)
          | Some ids \<Rightarrow>
              if (\<forall>b \<in> set QUESTION_BANK. id_question b \<in> set ids)
              then q = QUESTION_BANK ! (g 0 mod 20)
              else id_question q \<notin> set ids)"
proof -
  define P where
    "P = (\<lambda>q::Question. case exclude_ids of None \<Rightarrow> True
                 | Some ids \<Rightarrow> ids = [] \<or> id_question q \<notin> set ids)"
  define available where "available = filter P QUESTION_BANK"
  have ne: "QUESTION_BANK \<noteq> []"
    using QUESTION_BANK_length by auto
  have pick: "pick_random_question exclude_ids g =
                choice (if available = [] then QUESTION_BANK else available) g"
    by (simp add: pick_random_question_def available_def P_def Let_def)
  show ?thesis
  proof (cases "available = []")
    case True
    then have none: "\<forall>b \<in> set QUESTION_BANK. \<not> P b"
      by (simp add: available_def filter_empty_conv)
    from choice_member [OF ne, of g] obtain q g' where
      q: "choice QUESTION_BANK g = Inr (q, g')" "q = QUESTION_BANK ! (g 0 mod 20)"
         "q \<in> set QUESTION_BANK"
      by (auto simp: QUESTION_BANK_length)
    from none ne have "case exclude_ids of None \<Rightarrow> False
                       | Some ids \<Rightarrow> \<forall>b \<in> set QUESTION_BANK. id_question b \<in> set ids"
      by (cases exclude_ids) (auto simp: P_def)
    moreover have "pick_random_question exclude_ids g = Inr (q, g')"
      using pick True q(1) by simp
    ultimately show ?thesis using q(2,3)
      by (cases exclude_ids) (simp_all add: QUESTION_BANK_length)
  next
    case False
    from choice_member [OF False, of g] obtain q g' where
      q: "choice available g = Inr (q, g')" "q = available ! (g 0 mod length available)"
         "q \<in> set available"
      by blast
    then have mem: "q \<in> set QUESTION_BANK" and Pq: "P q"
      by (auto simp: available_def)
    have res: "pick_random_question exclude_ids g = Inr (q, g')"
      using pick False q(1) by simp
    show ?thesis
    proof (cases exclude_ids)
      case None
      then have "available = QUESTION_BANK"
        by (simp add: available_def P_def)
      with q(2) have "q = QUESTION_BANK ! (g 0 mod 20)"
        by (simp add: QUESTION_BANK_length)
      with res mem None show ?thesis
        by (simp add: QUESTION_BANK_length)
    next
      case (Some ids)
      from Pq Some have notin: "id_question q \<notin> set ids"
        by (auto simp: P_def)
      with mem have "\<not> (\<forall>b \<in> set QUESTION_BANK. id_question b \<in> set ids)"
        by blast
      with res mem Some notin show ?thesis
        by (auto simp: QUESTION_BANK_length)
    qed
  qed
qed

theorem pick_random_question_excludes_witness:
  "(\<exists>q g'. pick_random_question (Some [''q01'', ''q02'']) (\<lambda>i. 0) = Inr (q, g')
       \<and> q \<in> set QUESTION_BANK \<and> id_question q \<notin> set [''q01'', ''q02''])
   \<and> (\<exists>q g'. pick_random_question (Some (map id_question QUESTION_BANK)) (\<lambda>i. 7)
                  = Inr (q, g')
          \<and> q = QUESTION_BANK ! 7 \<and> id_question q = ''q08'')"
proof -
  have a: "\<not> (\<forall>b \<in> set QUESTION_BANK. id_question b \<in> set [''q01'', ''q02''])"
    by (simp add: QUESTION_BANK_def)
  have b: "\<forall>b \<in> set QUESTION_BANK. id_question b \<in> set (map id_question QUESTION_BANK)"
    by simp
  have c: "id_question (QUESTION_BANK ! 7) = ''q08''"
    by (simp add: QUESTION_BANK_def)
  note t1 = pick_random_question_excludes
      [of "Some [''q01'', ''q02'']" "\<lambda>i. 0", simplified option.case]
  then obtain q g' where
    r: "pick_random_question (Some [''q01'', ''q02'']) (\<lambda>i. 0) = Inr (q, g')"
       "q \<in> set QUESTION_BANK"
    and i: "if (\<forall>b \<in> set QUESTION_BANK. id_question b \<in> set [''q01'', ''q02''])
            then q = QUESTION_BANK ! (0 mod 20)
            else id_question q \<notin> set [''q01'', ''q02'']"
    by blast
  from i a have "id_question q \<notin> set [''q01'', ''q02'']"
    by metis
  with r have
    "\<exists>q g'. pick_random_question (Some [''q01'', ''q02'']) (\<lambda>i. 0) = Inr (q, g')
       \<and> q \<in> set QUESTION_BANK \<and> id_question q \<notin> set [''q01'', ''q02'']"
    by blast
  moreover
  note t2 = pick_random_question_excludes
      [of "Some (map id_question QUESTION_BANK)" "\<lambda>i. 7", simplified option.case]
  then obtain q2 g2 where
    r2: "pick_random_question (Some (map id_question QUESTION_BANK)) (\<lambda>i. 7) = Inr (q2, g2)"
    and i2: "if (\<forall>b \<in> set QUESTION_BANK.
                   id_question b \<in> set (map id_question QUESTION_BANK))
             then q2 = QUESTION_BANK ! (7 mod 20)
             else id_question q2 \<notin> set (map id_question QUESTION_BANK)"
    by blast
  from i2 b have "q2 = QUESTION_BANK ! (7 mod 20)"
    by metis
  then have "q2 = QUESTION_BANK ! 7" by simp
  with r2 c have
    "\<exists>q g'. pick_random_question (Some (map id_question QUESTION_BANK)) (\<lambda>i. 7)
                  = Inr (q, g')
          \<and> q = QUESTION_BANK ! 7 \<and> id_question q = ''q08''"
    by blast
  ultimately show ?thesis by blast
qed

text \<open>
  C4, amended. apply\_option\_impact gives for each of production, price and marketing
  the maximum of 0 and decision field * multiplier + delta, where a missing decision
  field reads as 0, a missing multiplier as 1 and a missing delta as 0. On the decision
  production 1000, price 50, marketing 2000, option B of question q02 (price multiplier
  0.97, production multiplier 1.05) gives production 1050, price 48.5, marketing 2000.
  With an empty impact map each field of the result is the maximum of 0 and the field of
  the decision, so the result is the decision itself when the decision holds exactly the
  three fields and none is negative.
\<close>

theorem apply_option_impact_clamped:
  "apply_option_impact decision option =
     [(''production'',
         max 0 (dict_get decision ''production'' 0
                  * dict_get (impact option) ''production_multiplier'' 1
                + dict_get (impact option) ''production_delta'' 0)),
      (''price'',
         max 0 (dict_get decision ''price'' 0
                  * dict_get (impact option) ''price_multiplier'' 1
                + dict_get (impact option) ''price_delta'' 0)),
      (''marketing'',
         max 0 (dict_get decision ''marketing'' 0
                  * dict_get (impact option) ''marketing_multiplier'' 1
                + dict_get (impact option) ''marketing_delta'' 0))]
   \<and> impact (options (QUESTION_BANK ! 1) ! 1) =
         [(''price_multiplier'', 0.97), (''production_multiplier'', 1.05)]
   \<and> apply_option_impact [(''production'', 1000), (''price'', 50), (''marketing'', 2000)]
         (options (QUESTION_BANK ! 1) ! 1) =
       [(''production'', 1050), (''price'', 48.5), (''marketing'', 2000)]
   \<and> (impact option = [] \<longrightarrow>
        apply_option_impact decision option =
          [(''production'', max 0 (dict_get decision ''production'' 0)),
           (''price'', max 0 (dict_get decision ''price'' 0)),
           (''marketing'', max 0 (dict_get decision ''marketing'' 0))])
   \<and> (impact option = [] \<and> Decision_from_dict decision = Inr d
        \<and> 0 \<le> Decision.production d \<and> 0 \<le> Decision.price d
        \<and> 0 \<le> Decision.marketing d \<longrightarrow>
        dict_eq (apply_option_impact decision option) decision)"
proof (intro conjI impI)
  assume a: "impact option = [] \<and> Decision_from_dict decision = Inr d
        \<and> 0 \<le> Decision.production d \<and> 0 \<le> Decision.price d
        \<and> 0 \<le> Decision.marketing d"
  then have dd: "Decision_from_dict decision = Inr d" by simp
  have "map_of (apply_option_impact decision option) k = map_of decision k" for k
  proof (cases "k \<in> set Decision_fields")
    case True
    with a Decision_from_dict_Inr(1-3) [OF dd] show ?thesis
      by (auto simp: apply_option_impact_def dict_get_def Decision_fields_def Let_def)
  next
    case False
    with Decision_from_dict_Inr(4) [OF dd] show ?thesis
      by (auto simp: apply_option_impact_def Decision_fields_def Let_def)
  qed
  then show "dict_eq (apply_option_impact decision option) decision"
    by (auto simp: dict_eq_def)
qed (simp_all add: apply_option_impact_def dict_get_def Let_def QUESTION_BANK_def)

theorem apply_option_impact_clamped_witness:
  "impact (options (QUESTION_BANK ! 7) ! 2) = []
   \<and> Decision_from_dict [(''production'', 1000), (''price'', 50), (''marketing'', 2000)] =
       Inr \<lparr>Decision.production = 1000, Decision.price = 50, Decision.marketing = 2000\<rparr>
   \<and> apply_option_impact [(''production'', 1000), (''price'', 50), (''marketing'', 2000)]
         (options (QUESTION_BANK ! 7) ! 2) =
       [(''production'', 1000), (''price'', 50), (''marketing'', 2000)]
   \<and> dict_eq (apply_option_impact
                 [(''production'', 1000), (''price'', 50), (''marketing'', 2000)]
                 (options (QUESTION_BANK ! 7) ! 2))
         [(''production'', 1000), (''price'', 50), (''marketing'', 2000)]"
proof -
  have e: "impact (options (QUESTION_BANK ! 7) ! 2) = []"
    by (simp add: QUESTION_BANK_def)
  from apply_option_impact_clamped
    [of "[(''production'', 1000), (''price'', 50), (''marketing'', 2000)]"
        "options (QUESTION_BANK ! 7) ! 2"
        "\<lparr>Decision.production = 1000, Decision.price = 50, Decision.marketing = 2000\<rparr>"]
    e Decision_from_dict_three [of 1000 50 2000]
  show ?thesis
    by (simp add: dict_get_def dict_eq_def)
qed

text \<open>
  C4 as stated fails: with the empty impact map of option C of question q08, the empty
  decision (the pending decision of a company that has not submitted one) comes back
  with three fields at 0, and a negative production comes back as 0.
\<close>

theorem apply_option_impact_identity_counterexample:
  "impact (options (QUESTION_BANK ! 7) ! 2) = []
   \<and> \<not> dict_eq (apply_option_impact [] (options (QUESTION_BANK ! 7) ! 2)) []
   \<and> \<not> dict_eq (apply_option_impact
                   [(''production'', - 100), (''price'', 50), (''marketing'', 2000)]
                   (options (QUESTION_BANK ! 7) ! 2))
           [(''production'', - 100), (''price'', 50), (''marketing'', 2000)]"
proof -
  have e: "impact (options (QUESTION_BANK ! 7) ! 2) = []"
    by (simp add: QUESTION_BANK_def)
  have "map_of (apply_option_impact [] (options (QUESTION_BANK ! 7) ! 2)) ''production''
          \<noteq> map_of [] ''production''"
    by (simp add: apply_option_impact_def Let_def)
  then have 1: "\<not> dict_eq (apply_option_impact [] (options (QUESTION_BANK ! 7) ! 2)) []"
    unfolding dict_eq_def by metis
  have "map_of (apply_option_impact
                   [(''production'', - 100), (''price'', 50), (''marketing'', 2000)]
                   (options (QUESTION_BANK ! 7) ! 2)) ''production''
          \<noteq> map_of [(''production'', - 100), (''price'', 50), (''marketing'', 2000 :: real)]
               ''production''"
    by (simp add: apply_option_impact_def Let_def e dict_get_def)
  then have 2: "\<not> dict_eq (apply_option_impact
                   [(''production'', - 100), (''price'', 50), (''marketing'', 2000)]
                   (options (QUESTION_BANK ! 7) ! 2))
           [(''production'', - 100), (''price'', 50), (''marketing'', 2000)]"
    unfolding dict_eq_def by metis
  from e 1 2 show ?thesis by blast
qed

lemma QUESTION_INDEX_eq:
  "QUESTION_INDEX = map (\<lambda>q. (id_question q, q)) QUESTION_BANK"
  by (simp add: QUESTION_INDEX_def QUESTION_BANK_def)

lemma map_of_keyed_find:
  "map_of (map (\<lambda>q. (f q, q)) xs) k = find (\<lambda>q. f q = k) xs"
  by (induction xs) auto

lemma QUESTION_INDEX_lookup:
  "map_of QUESTION_INDEX question_id = find (\<lambda>q. id_question q = question_id) QUESTION_BANK"
  by (simp add: QUESTION_INDEX_eq map_of_keyed_find)

lemma source_effective_decision:
  "(case (case map_of QUESTION_INDEX question_id of
            None \<Rightarrow> None
          | Some question \<Rightarrow>
              find (\<lambda>option. Some (id_option option) = selected) (options question)) of
      Some option \<Rightarrow> apply_option_impact base option
    | None \<Rightarrow> base) = spec_effective_decision base selected question_id"
  by (simp add: QUESTION_INDEX_lookup spec_effective_decision_def split: option.split)

lemma pick_random_question_None:
  "pick_random_question None g =
     Inr (QUESTION_BANK ! (g 0 mod length QUESTION_BANK), \<lambda>i. g (Suc i))"
proof -
  have "QUESTION_BANK \<noteq> []"
    using QUESTION_BANK_length by auto
  then show ?thesis
    by (simp add: pick_random_question_def choice_def Let_def)
qed

lemma resolve_question_id_eq:
  "\<exists>g'. resolve_question_id company g = Inr (spec_question_id company g, g')"
  by (simp add: resolve_question_id_def spec_question_id_def pick_random_question_None
      split: option.split)

lemma close_company_cases:
  "(financials company = [] \<and> close_company g company = Inl IndexError)
   \<or> (financials company \<noteq> []
       \<and> (\<exists>e. simulate_quarter (last (financials company))
                 (spec_effective_decision (decisions company) (selected_option_id company)
                    (spec_question_id company g)) = Inl e
               \<and> close_company g company = Inl e))
   \<or> (financials company \<noteq> []
       \<and> (\<exists>result g' h.
             simulate_quarter (last (financials company))
               (spec_effective_decision (decisions company) (selected_option_id company)
                  (spec_question_id company g)) = Inr result
             \<and> close_company g company =
                 Inr (\<lparr>name = name company,
                       financials = financials company @ [result],
                       decisions = [], agent_chat = agent_chat company,
                       active_question_id = None, selected_option_id = None,
                       question_history = Some h\<rparr>, g')))"
proof (cases "financials company = []")
  case True
  then show ?thesis by (simp add: close_company_def)
next
  case False
  from resolve_question_id_eq obtain g' where
    r: "resolve_question_id company g = Inr (spec_question_id company g, g')"
    by blast
  show ?thesis
  proof (cases "simulate_quarter (last (financials company))
                 (spec_effective_decision (decisions company) (selected_option_id company)
                    (spec_question_id company g))")
    case (Inl e)
    with False r show ?thesis
      by (simp add: close_company_def Let_def source_effective_decision)
  next
    case (Inr result)
    with False r show ?thesis
      by (simp add: close_company_def Let_def source_effective_decision)
  qed
qed


lemma close_company_Inr:
  assumes "close_company g company = Inr (company', g')"
  shows "financials company \<noteq> []"
    and "simulate_quarter (last (financials company))
           (spec_effective_decision (decisions company) (selected_option_id company)
              (spec_question_id company g)) = Inr (last (financials company'))"
    and "financials company' = financials company @ [last (financials company')]"
    and "decisions company' = []" and "active_question_id company' = None"
    and "selected_option_id company' = None" and "name company' = name company"
  using close_company_cases [of company g] assms by auto

lemma apply_option_impact_complete:
  "\<exists>d. Decision_from_dict (apply_option_impact decision option) = Inr d"
  by (simp add: apply_option_impact_def Let_def Decision_from_dict_three)

lemma spec_effective_decision_complete:
  assumes "Decision_from_dict base = Inr d"
  shows "\<exists>d'. Decision_from_dict (spec_effective_decision base selected question_id) = Inr d'"
  using assms apply_option_impact_complete
  by (simp add: spec_effective_decision_def split: option.split)

lemma simulate_quarter_total:
  assumes "Decision_from_dict decision = Inr d"
  shows "\<exists>s. simulate_quarter previous decision = Inr s"
  using simulate_quarter_fields [OF assms, of previous] by blast

lemma close_company_total:
  assumes "financials company \<noteq> []"
    and "Decision_from_dict
           (spec_effective_decision (decisions company) (selected_option_id company)
              (spec_question_id company g)) = Inr d"
  shows "\<exists>company' g'. close_company g company = Inr (company', g')"
  using close_company_cases [of company g] assms
    simulate_quarter_total [OF assms(2), of "last (financials company)"]
  by auto

lemma company_closable_close:
  assumes "company_closable company"
  shows "\<exists>company' g'. close_company g company = Inr (company', g')"
proof -
  from assms obtain d where "Decision_from_dict (decisions company) = Inr d"
    by (auto simp: company_closable_def has_decision_def split: sum.splits)
  from spec_effective_decision_complete [OF this] obtain d' where
    "Decision_from_dict
       (spec_effective_decision (decisions company) (selected_option_id company)
          (spec_question_id company g)) = Inr d'"
    by blast
  with assms close_company_total show ?thesis
    by (simp add: company_closable_def)
qed

lemma close_companies_Inr:
  assumes "close_companies g cs = Inr (ucs, g')"
  shows "list_all2 (\<lambda>kc kc'. fst kc' = fst kc
                     \<and> (\<exists>gi gi'. close_company gi (snd kc) = Inr (snd kc', gi'))) cs ucs"
  using assms
proof (induction cs arbitrary: g ucs)
  case Nil
  then show ?case by simp
next
  case (Cons kc cs)
  obtain k c where kc: "kc = (k, c)" by (cases kc)
  from Cons.prems kc obtain c' g1 ucs' where
    c: "close_company g c = Inr (c', g1)"
    and r: "close_companies g1 cs = Inr (ucs', g')"
    and u: "ucs = (k, c') # ucs'"
    by (auto split: sum.splits prod.splits)
  from Cons.IH [OF r] c u kc show ?case
    by auto
qed

lemma close_companies_total:
  assumes "list_all (\<lambda>kc. company_closable (snd kc)) cs"
  shows "\<exists>ucs g'. close_companies g cs = Inr (ucs, g')"
  using assms
proof (induction cs arbitrary: g)
  case Nil
  then show ?case by simp
next
  case (Cons kc cs)
  obtain k c where kc: "kc = (k, c)" by (cases kc)
  with Cons.prems have "company_closable c" by simp
  from company_closable_close [OF this, of g] obtain c' g1 where
    c: "close_company g c = Inr (c', g1)"
    by blast
  from Cons.prems have "list_all (\<lambda>kc. company_closable (snd kc)) cs" by simp
  from Cons.IH [OF this, of g1] obtain ucs g' where "close_companies g1 cs = Inr (ucs, g')"
    by blast
  with c kc show ?case by simp
qed

lemma close_quarter_Inr:
  assumes "close_quarter sessions session_id g = Inr (s', sessions', g')"
    and "get_by_id sessions session_id = Some s"
  shows "\<exists>ucs. close_companies g (companies s) = Inr (ucs, g')
           \<and> companies s' = ucs"
    and "current_quarter s' = current_quarter s + 1"
    and "game_status s' = status_for_quarter (current_quarter s + 1)"
    and "id_session s' = id_session s"
    and "sessions' = save sessions s'"
  using assms
  by (auto simp: close_quarter_def Let_def status_for_quarter_def
      split: sum.splits prod.splits)

lemma close_quarter_total:
  assumes "get_by_id sessions session_id = Some s"
    and "list_all (\<lambda>kc. company_closable (snd kc)) (companies s)"
  shows "\<exists>s' sessions' g'. close_quarter sessions session_id g = Inr (s', sessions', g')"
  using assms(1) close_companies_total [OF assms(2), of g]
  by (auto simp: close_quarter_def Let_def)

lemma simulate_quarter_inputs:
  assumes "Decision_from_dict decision = Inr d"
  shows "\<exists>s. simulate_quarter previous decision = Inr s
           \<and> price s = Decision.price d \<and> marketing s = Decision.marketing d
           \<and> production s = Decision.production d"
  using assms
  by (simp add: simulate_quarter_def calculate_ratios_eq Let_def)

lemma close_company_result:
  assumes "financials company \<noteq> []"
    and "spec_effective_decision (decisions company) (selected_option_id company)
           (spec_question_id company g) = decision"
    and "Decision_from_dict decision = Inr d"
  shows "\<exists>company' g'. close_company g company = Inr (company', g')
           \<and> simulate_quarter (last (financials company)) decision
               = Inr (last (financials company'))
           \<and> price (last (financials company')) = Decision.price d
           \<and> marketing (last (financials company')) = Decision.marketing d
           \<and> production (last (financials company')) = Decision.production d"
proof -
  from assms close_company_total [of company g d] obtain company' g' where
    c: "close_company g company = Inr (company', g')"
    by auto
  from close_company_Inr(2) [OF c] assms(2)
  have s: "simulate_quarter (last (financials company)) decision
             = Inr (last (financials company'))"
    by simp
  from simulate_quarter_inputs [OF assms(3), of "last (financials company)"] s c
  show ?thesis by auto
qed

lemma company_with_answer_decision:
  "spec_effective_decision (decisions company_with_answer)
     (selected_option_id company_with_answer)
     (spec_question_id company_with_answer zero_draws) =
   [(''production'', 800), (''price'', 52), (''marketing'', 800)]"
  by (simp add: company_with_answer_def spec_question_id_def spec_effective_decision_def
      QUESTION_BANK_def apply_option_impact_def dict_get_def Let_def)

lemma company_without_question_decision:
  "spec_effective_decision (decisions company_without_question)
     (selected_option_id company_without_question)
     (spec_question_id company_without_question zero_draws) =
   [(''production'', 1000), (''price'', 51), (''marketing'', 2000)]"
  by (simp add: company_without_question_def spec_question_id_def spec_effective_decision_def
      zero_draws_def QUESTION_BANK_def apply_option_impact_def dict_get_def Let_def)

lemma INITIAL_FINANCIALS_nonempty: "INITIAL_FINANCIALS \<noteq> []"
  by (simp add: INITIAL_FINANCIALS_def)

text \<open>
  C6 as stated fails for a company without an active question: the option A that it
  selected is taken from the question drawn ad hoc (q01 at draw 0, a price delta of 1),
  so the snapshot is computed at price 51 and not from the pending decision (price 50).
\<close>

theorem adhoc_question_option_counterexample:
  "active_question_id company_without_question = None
   \<and> decisions company_without_question =
       [(''production'', 1000), (''price'', 50), (''marketing'', 2000)]
   \<and> (case close_company zero_draws company_without_question of
         Inl e \<Rightarrow> False
       | Inr (c', g') \<Rightarrow>
           price (last (financials c')) = 51
           \<and> simulate_quarter (last (financials company_without_question))
                 (decisions company_without_question) \<noteq> Inr (last (financials c')))"
proof -
  have f: "financials company_without_question \<noteq> []"
    by (simp add: company_without_question_def INITIAL_FINANCIALS_nonempty)
  from close_company_result
    [OF f company_without_question_decision Decision_from_dict_three]
  obtain c' g' where
    c: "close_company zero_draws company_without_question = Inr (c', g')"
    and p: "price (last (financials c')) = 51"
    by auto
  from simulate_quarter_inputs [OF Decision_from_dict_three,
      of "last (financials company_without_question)" 1000 50 2000]
  obtain s where
    s: "simulate_quarter (last (financials company_without_question))
          [(''production'', 1000), (''price'', 50), (''marketing'', 2000)] = Inr s"
    and ps: "price s = 50"
    by auto
  from p ps have "s \<noteq> last (financials c')" by auto
  with s have "simulate_quarter (last (financials company_without_question))
                 (decisions company_without_question) \<noteq> Inr (last (financials c'))"
    by (simp add: company_without_question_def)
  with c p show ?thesis
    by (simp add: company_without_question_def)
qed

lemma find_no_selection:
  "find (\<lambda>option. False) xs = None"
  by (induction xs) auto

lemma spec_effective_decision_no_selection:
  "spec_effective_decision base None question_id = base"
  by (simp add: spec_effective_decision_def find_no_selection split: option.split)

lemma simulate_quarter_empty_decision:
  "simulate_quarter previous [] = Inl TypeError"
  by (simp add: simulate_quarter_def Decision_from_dict_empty)

lemma close_company_no_decision:
  assumes "financials company \<noteq> []" and "decisions company = []"
    and "selected_option_id company = None"
  shows "close_company g company = Inl TypeError"
  using close_company_cases [of company g] assms
  by (auto simp: spec_effective_decision_no_selection simulate_quarter_empty_decision)

lemma pick_random_question_empty:
  "pick_random_question (Some []) g =
     Inr (QUESTION_BANK ! (g 0 mod length QUESTION_BANK), \<lambda>i. g (Suc i))"
proof -
  have "QUESTION_BANK \<noteq> []"
    using QUESTION_BANK_length by auto
  then show ?thesis
    by (simp add: pick_random_question_def choice_def Let_def)
qed

lemma first_question: "id_question (QUESTION_BANK ! 0) = ''q01''"
  by (simp add: QUESTION_BANK_def)

lemma create_session_alpha:
  "create_session [] [''Alpha Corp''] ''s1'' ''ab12cd34'' 0 zero_draws =
     Inr (\<lparr>id_session = ''s1'', game_code = ''AB12CD'', game_status = ''Q1'',
           current_quarter = 1, last_update_time = 0,
           companies =
             [(''alpha_corp'',
               \<lparr>name = ''Alpha Corp'', financials = INITIAL_FINANCIALS, decisions = [],
                agent_chat = [], active_question_id = Some ''q01'',
                selected_option_id = None, question_history = Some [''q01'']\<rparr>)]\<rparr>,
          [(''s1'',
            \<lparr>id_session = ''s1'', game_code = ''AB12CD'', game_status = ''Q1'',
             current_quarter = 1, last_update_time = 0,
             companies =
               [(''alpha_corp'',
                 \<lparr>name = ''Alpha Corp'', financials = INITIAL_FINANCIALS, decisions = [],
                  agent_chat = [], active_question_id = Some ''q01'',
                  selected_option_id = None, question_history = Some [''q01'']\<rparr>)]\<rparr>)],
          zero_draws)"
  by (simp add: create_session_def assign_quarter_questions_def save_def get_by_id_def
      history_of_def pick_random_question_empty first_question QUESTION_BANK_length
      str_lower_def str_upper_def str_replace_char_def zero_draws_def Let_def)

lemma close_companies_appended:
  assumes "close_companies g cs = Inr (ucs, g')"
  shows "list_all2 (\<lambda>kc kc'. fst kc' = fst kc
                      \<and> (\<exists>snap. financials (snd kc') = financials (snd kc) @ [snap])
                      \<and> active_question_id (snd kc') = None) cs ucs"
  using close_companies_Inr [OF assms]
proof (rule list_all2_mono)
  fix kc kc'
  assume "fst kc' = fst kc \<and> (\<exists>gi gi'. close_company gi (snd kc) = Inr (snd kc', gi'))"
  then obtain gi gi' where
    k: "fst kc' = fst kc" and c: "close_company gi (snd kc) = Inr (snd kc', gi')"
    by blast
  from close_company_Inr(3) [OF c]
  have "\<exists>snap. financials (snd kc') = financials (snd kc) @ [snap]"
    by blast
  with close_company_Inr(5) [OF c] k
  show "fst kc' = fst kc
          \<and> (\<exists>snap. financials (snd kc') = financials (snd kc) @ [snap])
          \<and> active_question_id (snd kc') = None"
    by simp
qed

lemma status_for_quarter_Finished:
  "(status_for_quarter q = ''Finished'') = (4 < q)"
  by (simp add: status_for_quarter_def)

lemma close_quarter_main_finished:
  assumes "close_quarter sessions session_id g = Inr (s', sessions', g')"
    and "game_status s' = ''Finished''"
  shows "close_quarter_main sessions session_id now g = Inr (s', sessions', g')"
  using assms by (simp add: close_quarter_main_def)

text \<open>
  C9. The claim says that close\_quarter fails only for an unknown session. The code
  does not do so: the session that create\_session builds for one company is stored and
  in quarter 1, its company has the empty pending decision, and closing the quarter
  raises TypeError, in the service method and through the endpoint of main.py, since
  \<^verbatim>\<open>Decision(**{})\<close> lacks its three arguments.
\<close>

theorem close_quarter_without_decision:
  "(case create_session [] [''Alpha Corp''] ''s1'' ''ab12cd34'' 0 zero_draws of
      Inl e \<Rightarrow> False
    | Inr (session, sessions, g) \<Rightarrow>
        get_by_id sessions ''s1'' = Some session
        \<and> game_status session = ''Q1''
        \<and> map (\<lambda>kc. decisions (snd kc)) (companies session) = [[]]
        \<and> close_quarter sessions ''s1'' g = Inl TypeError
        \<and> close_quarter_main sessions ''s1'' 1 g = Inl TypeError)"
proof -
  define company where
    "company = \<lparr>name = ''Alpha Corp'', financials = INITIAL_FINANCIALS, decisions = [],
                agent_chat = [], active_question_id = Some ''q01'',
                selected_option_id = None, question_history = Some [''q01'']\<rparr>"
  have "close_company zero_draws company = Inl TypeError"
    by (rule close_company_no_decision)
      (simp_all add: company_def INITIAL_FINANCIALS_nonempty)
  then have c: "close_quarter
          [(''s1'',
            \<lparr>id_session = ''s1'', game_code = ''AB12CD'', game_status = ''Q1'',
             current_quarter = 1, last_update_time = 0,
             companies = [(''alpha_corp'', company)]\<rparr>)] ''s1'' zero_draws = Inl TypeError"
    by (simp add: close_quarter_def get_by_id_def)
  then have "close_quarter_main
          [(''s1'',
            \<lparr>id_session = ''s1'', game_code = ''AB12CD'', game_status = ''Q1'',
             current_quarter = 1, last_update_time = 0,
             companies = [(''alpha_corp'', company)]\<rparr>)] ''s1'' 1 zero_draws = Inl TypeError"
    by (simp add: close_quarter_main_def http_error_def)
  with c show ?thesis
    by (simp add: create_session_alpha company_def get_by_id_def)
qed

text \<open>
  C10, amended. close\_quarter has no guard against a finished game: for every stored
  session whose current quarter is 5 or more and whose companies all have a financial
  history and a pending decision with exactly the fields production, price and
  marketing, close\_quarter succeeds (and so does the endpoint, which returns the same
  session), the current quarter grows by one, the status is again Finished, and every
  company gets exactly one more snapshot at the end of its financial history.
\<close>

theorem close_quarter_after_finish:
  assumes "get_by_id sessions session_id = Some s"
    and "5 \<le> current_quarter s"
    and "list_all (\<lambda>kc. company_closable (snd kc)) (companies s)"
  shows "\<exists>s' sessions' g'.
           close_quarter sessions session_id g = Inr (s', sessions', g')
           \<and> close_quarter_main sessions session_id now g = Inr (s', sessions', g')
           \<and> current_quarter s' = current_quarter s + 1
           \<and> game_status s' = ''Finished''
           \<and> list_all2
                 (\<lambda>kc kc'. fst kc' = fst kc
                    \<and> (\<exists>snap. financials (snd kc') = financials (snd kc) @ [snap])
                    \<and> length (financials (snd kc')) = length (financials (snd kc)) + 1)
                 (companies s) (companies s')"
proof -
  from close_quarter_total [OF assms(1,3), of g] obtain s' sessions' g' where
    q: "close_quarter sessions session_id g = Inr (s', sessions', g')"
    by blast
  note r = close_quarter_Inr [OF q assms(1)]
  from r(3) assms(2) have f: "game_status s' = ''Finished''"
    by (simp add: status_for_quarter_def)
  from r(1) have "close_companies g (companies s) = Inr (companies s', g')"
    by auto
  from close_companies_appended [OF this]
  have "list_all2
          (\<lambda>kc kc'. fst kc' = fst kc
             \<and> (\<exists>snap. financials (snd kc') = financials (snd kc) @ [snap])
             \<and> length (financials (snd kc')) = length (financials (snd kc)) + 1)
          (companies s) (companies s')"
  proof (rule list_all2_mono)
    fix kc kc'
    assume a: "fst kc' = fst kc
          \<and> (\<exists>snap. financials (snd kc') = financials (snd kc) @ [snap])
          \<and> active_question_id (snd kc') = None"
    then obtain snap where n: "financials (snd kc') = financials (snd kc) @ [snap]"
      by blast
    then have "length (financials (snd kc')) = length (financials (snd kc)) + 1"
      by simp
    with a show "fst kc' = fst kc
          \<and> (\<exists>snap. financials (snd kc') = financials (snd kc) @ [snap])
          \<and> length (financials (snd kc')) = length (financials (snd kc)) + 1"
      by blast
  qed
  with q close_quarter_main_finished [OF q f, of now] r(2) f show ?thesis
    by blast
qed

theorem close_quarter_after_finish_witness:
  "get_by_id [(''s1'', finished_session_with_decision)] ''s1''
     = Some finished_session_with_decision
   \<and> 5 \<le> current_quarter finished_session_with_decision
   \<and> (\<exists>s' sessions' g'.
         close_quarter [(''s1'', finished_session_with_decision)] ''s1'' zero_draws
           = Inr (s', sessions', g')
         \<and> current_quarter s' = 6 \<and> game_status s' = ''Finished''
         \<and> list_all2 (\<lambda>kc kc'. length (financials (snd kc')) = 2)
               (companies finished_session_with_decision) (companies s'))"
proof -
  have g: "get_by_id [(''s1'', finished_session_with_decision)] ''s1''
             = Some finished_session_with_decision"
    by (simp add: get_by_id_def)
  have q: "5 \<le> current_quarter finished_session_with_decision"
    by (simp add: finished_session_with_decision_def)
  have c: "list_all (\<lambda>kc. company_closable (snd kc))
             (companies finished_session_with_decision)"
    by (simp add: finished_session_with_decision_def company_closable_def has_decision_def
        Decision_from_dict_three INITIAL_FINANCIALS_nonempty)
  from close_quarter_after_finish [OF g q c, of zero_draws 0] obtain s' sessions' g' where
    r: "close_quarter [(''s1'', finished_session_with_decision)] ''s1'' zero_draws
          = Inr (s', sessions', g')"
       "current_quarter s' = current_quarter finished_session_with_decision + 1"
       "game_status s' = ''Finished''"
    and l: "list_all2
             (\<lambda>kc kc'. fst kc' = fst kc
                \<and> (\<exists>snap. financials (snd kc') = financials (snd kc) @ [snap])
                \<and> length (financials (snd kc')) = length (financials (snd kc)) + 1)
             (companies finished_session_with_decision) (companies s')"
    by blast
  have "list_all (\<lambda>kc. length (financials (snd kc)) = 1)
          (companies finished_session_with_decision)"
    by (simp add: finished_session_with_decision_def INITIAL_FINANCIALS_def)
  with l have "list_all2 (\<lambda>kc kc'. length (financials (snd kc')) = 2)
               (companies finished_session_with_decision) (companies s')"
    by (auto simp: list_all2_conv_all_nth list_all_length)
  with g q r show ?thesis
    by (auto simp: finished_session_with_decision_def)
qed

text \<open>
  C10 as stated fails: a finished session in the state close\_quarter leaves it in, with
  no pending decision, is in the store at quarter 5, and closing it raises TypeError.
\<close>

theorem finished_close_counterexample:
  "current_quarter finished_session = 5 \<and> game_status finished_session = ''Finished''
   \<and> get_by_id [(''s1'', finished_session)] ''s1'' = Some finished_session
   \<and> close_quarter [(''s1'', finished_session)] ''s1'' zero_draws = Inl TypeError"
proof -
  have "close_company zero_draws (snd (hd (companies finished_session))) = Inl TypeError"
    by (rule close_company_no_decision)
      (simp_all add: finished_session_def INITIAL_FINANCIALS_nonempty)
  then have "close_quarter [(''s1'', finished_session)] ''s1'' zero_draws = Inl TypeError"
    by (simp add: close_quarter_def get_by_id_def finished_session_def)
  then show ?thesis
    by (simp add: get_by_id_def) (simp add: finished_session_def)
qed

lemma map_of_dict_set:
  "map_of (dict_set d k v) k' = (if k' = k then Some v else map_of d k')"
  by (induction d) auto

lemma get_by_id_save:
  "get_by_id (save sessions session) session_id =
     (if session_id = id_session session then Some session
      else get_by_id sessions session_id)"
  by (simp add: get_by_id_def save_def map_of_dict_set)

lemma str_nat_digit: "n < 10 \<Longrightarrow> str_nat n = [''0123456789'' ! n]"
  by (subst str_nat.simps) simp

lemma status_for_quarter_values:
  "status_for_quarter 1 = ''Q1''" "status_for_quarter 2 = ''Q2''"
  "status_for_quarter 3 = ''Q3''" "status_for_quarter 4 = ''Q4''"
  by (simp_all add: status_for_quarter_def str_int_def str_nat_digit)

lemma status_rank_quarter:
  assumes "1 \<le> q"
  shows "status_rank (status_for_quarter q) = (if 4 < q then 5 else nat q)"
proof (cases "4 < q")
  case True
  then show ?thesis
    by (simp add: status_for_quarter_def status_rank_def)
next
  case False
  with assms have "q = 1 \<or> q = 2 \<or> q = 3 \<or> q = 4" by arith
  then show ?thesis
    by (elim disjE) (simp_all add: status_for_quarter_values status_rank_def)
qed

lemma assign_quarter_questions_Inr:
  assumes "assign_quarter_questions sessions session_id g = Inr (s', sessions', g')"
    and "get_by_id sessions session_id = Some s"
  shows "current_quarter s' = current_quarter s" and "game_status s' = game_status s"
  using assms
  by (auto simp: assign_quarter_questions_def Let_def split: sum.splits prod.splits)

lemma submit_decision_Inr:
  assumes "submit_decision sessions session_id company_id p pr m = Inr (s', sessions')"
    and "get_by_id sessions session_id = Some s"
  shows "current_quarter s' = current_quarter s" and "game_status s' = game_status s"
  using assms
  by (auto simp: submit_decision_def Let_def split: option.splits)

lemma submit_answer_Inr:
  assumes "submit_answer sessions session_id company_id option_id = Inr (s', sessions')"
    and "get_by_id sessions session_id = Some s"
  shows "current_quarter s' = current_quarter s" and "game_status s' = game_status s"
  using assms
  by (auto simp: submit_answer_def Let_def split: option.splits)

lemma close_quarter_main_Inr:
  assumes "close_quarter_main sessions session_id now g = Inr (s', sessions', g')"
    and "get_by_id sessions session_id = Some s"
  shows "(current_quarter s' = current_quarter s \<and> game_status s' = game_status s)
         \<or> (current_quarter s' = current_quarter s + 1
             \<and> game_status s' = status_for_quarter (current_quarter s + 1))"
proof -
  from assms(1) obtain c sessions_c g_c where
    c: "close_quarter sessions session_id g = Inr (c, sessions_c, g_c)"
    by (auto simp: close_quarter_main_def split: sum.splits)
  note r = close_quarter_Inr [OF c assms(2)]
  show ?thesis
  proof (cases "game_status c = ''Finished''")
    case True
    with assms(1) c have "s' = c"
      by (simp add: close_quarter_main_def)
    with r show ?thesis by simp
  next
    case False
    with assms(1) c obtain a sessions_a where
      a: "assign_quarter_questions sessions_c session_id g_c = Inr (a, sessions_a, g')"
      and s': "s' = a\<lparr>last_update_time := now\<rparr>"
      by (auto simp: close_quarter_main_def Let_def split: sum.splits)
    have "get_by_id sessions_c session_id = Some c
          \<or> get_by_id sessions_c session_id = Some s"
      using r(5) assms(2) by (simp add: get_by_id_save)
    then show ?thesis
    proof
      assume "get_by_id sessions_c session_id = Some c"
      from assign_quarter_questions_Inr [OF a this] s' r show ?thesis by simp
    next
      assume "get_by_id sessions_c session_id = Some s"
      from assign_quarter_questions_Inr [OF a this] s' show ?thesis by simp
    qed
  qed
qed

lemma run_operation_Inr:
  assumes "run_operation op sessions session_id g = Inr (s', sessions', g')"
    and "get_by_id sessions session_id = Some s"
  shows "(current_quarter s' = current_quarter s \<and> game_status s' = game_status s)
         \<or> (current_quarter s' = current_quarter s + 1
             \<and> game_status s' = status_for_quarter (current_quarter s + 1))"
proof (cases op)
  case AssignQuarterQuestions
  with assms assign_quarter_questions_Inr [of sessions session_id g s' sessions' g' s]
  show ?thesis by simp
next
  case (SubmitDecision company_id p pr m)
  with assms have "submit_decision sessions session_id company_id p pr m = Inr (s', sessions')"
    by (auto split: sum.splits)
  from submit_decision_Inr [OF this assms(2)] show ?thesis by simp
next
  case (SubmitAnswer company_id option_id)
  with assms have "submit_answer sessions session_id company_id option_id = Inr (s', sessions')"
    by (auto split: sum.splits)
  from submit_answer_Inr [OF this assms(2)] show ?thesis by simp
next
  case CloseQuarter
  with assms have "close_quarter sessions session_id g = Inr (s', sessions', g')"
    by simp
  from close_quarter_Inr(2,3) [OF this assms(2)] show ?thesis by simp
next
  case (CloseQuarterMain now)
  with assms have "close_quarter_main sessions session_id now g = Inr (s', sessions', g')"
    by simp
  from close_quarter_main_Inr [OF this assms(2)] show ?thesis .
qed

lemma status_step:
  assumes "status_consistent s"
    and "(current_quarter s' = current_quarter s \<and> game_status s' = game_status s)
         \<or> (current_quarter s' = current_quarter s + 1
             \<and> game_status s' = status_for_quarter (current_quarter s + 1))"
  shows "status_consistent s'"
    and "status_rank (game_status s) \<le> status_rank (game_status s')"
    and "status_rank (game_status s') \<le> status_rank (game_status s) + 1"
    and "1 \<le> status_rank (game_status s')"
    and "game_status s = ''Finished'' \<Longrightarrow> game_status s' = ''Finished''"
proof -
  from assms(1) have q: "1 \<le> current_quarter s"
    and g: "game_status s = status_for_quarter (current_quarter s)"
    by (simp_all add: status_consistent_def)
  from assms(2) q have q': "1 \<le> current_quarter s'"
    and g': "game_status s' = status_for_quarter (current_quarter s')"
    and n: "current_quarter s' = current_quarter s \<or> current_quarter s' = current_quarter s + 1"
    using g by auto
  from q' g' show "status_consistent s'"
    by (simp add: status_consistent_def)
  from q q' n show "status_rank (game_status s) \<le> status_rank (game_status s')"
    and "status_rank (game_status s') \<le> status_rank (game_status s) + 1"
    and "1 \<le> status_rank (game_status s')"
    by (auto simp: g g' status_rank_quarter)
  assume "game_status s = ''Finished''"
  with g have "status_for_quarter (current_quarter s) = ''Finished''"
    by simp
  then have "4 < current_quarter s"
    by (simp only: status_for_quarter_Finished)
  with n have "4 < current_quarter s'" by auto
  with g' show "game_status s' = ''Finished''"
    by (simp add: status_for_quarter_Finished)
qed

lemma create_session_Inr:
  assumes "create_session sessions company_names uuid_a uuid_b now g = Inr (c, sessions_c, g_c)"
  shows "current_quarter c = 1" and "game_status c = ''Q1''"
proof -
  define new_session where
    "new_session =
       \<lparr>id_session = uuid_a, game_code = str_upper (take 6 uuid_b), game_status = ''Q1'',
        current_quarter = 1, last_update_time = now,
        companies =
          foldl (\<lambda>cs name_v.
                   dict_set cs (str_replace_char CHR '' '' CHR ''_'' (str_lower name_v))
                     \<lparr>name = name_v, financials = INITIAL_FINANCIALS, decisions = [],
                      agent_chat = [], active_question_id = None,
                      selected_option_id = None, question_history = Some []\<rparr>)
                [] company_names\<rparr>"
  from assms have a: "assign_quarter_questions (save sessions new_session) uuid_a g
                        = Inr (c, sessions_c, g_c)"
    by (simp add: create_session_def new_session_def Let_def)
  have "get_by_id (save sessions new_session) uuid_a = Some new_session"
    by (simp add: get_by_id_save new_session_def)
  from assign_quarter_questions_Inr [OF a this]
  show "current_quarter c = 1" and "game_status c = ''Q1''"
    by (simp_all add: new_session_def)
qed

text \<open>
  C5. The status of a game only moves forward on the path Q1, Q2, Q3, Q4, Finished.
  A successful close\_quarter sets the current quarter to the next one and the status to
  Finished exactly when the next quarter is beyond 4, and to Q followed by the next
  quarter otherwise. A session is created in Q1 at quarter 1, and every operation on a
  stored session whose status is the one of its quarter (assigning questions, submitting
  a decision or an answer, closing the quarter in the service or through the endpoint)
  keeps that property, leaves the status where it is or moves it one step forward, and
  leaves a finished game finished. Closing quarter 4 through the endpoint gives the
  status Finished and runs no question assignment: the result is the one of the service
  method, in which no company has an active question.
\<close>

theorem game_status_forward:
  "(close_quarter sessions session_id g = Inr (s', sessions', g')
      \<and> get_by_id sessions session_id = Some s \<longrightarrow>
      current_quarter s' = current_quarter s + 1
      \<and> game_status s' =
          (if 4 < current_quarter s + 1 then ''Finished''
           else ''Q'' @ str_int (current_quarter s + 1))
      \<and> ((game_status s' = ''Finished'') = (4 < current_quarter s + 1)))
   \<and> (run_operation op sessions session_id g = Inr (t', sessions_t, g_t)
      \<and> get_by_id sessions session_id = Some t \<and> status_consistent t \<longrightarrow>
      status_consistent t'
      \<and> status_rank (game_status t) \<le> status_rank (game_status t')
      \<and> status_rank (game_status t') \<le> status_rank (game_status t) + 1
      \<and> 1 \<le> status_rank (game_status t')
      \<and> (game_status t = ''Finished'' \<longrightarrow> game_status t' = ''Finished''))
   \<and> (close_quarter_main sessions session_id now g = Inr (u', sessions_u, g_u)
      \<and> get_by_id sessions session_id = Some u \<and> current_quarter u = 4 \<longrightarrow>
      game_status u' = ''Finished''
      \<and> close_quarter sessions session_id g = Inr (u', sessions_u, g_u)
      \<and> list_all (\<lambda>kc. active_question_id (snd kc) = None) (companies u'))
   \<and> (create_session sessions company_names uuid_a uuid_b now g = Inr (c, sessions_c, g_c)
      \<longrightarrow> game_status c = ''Q1'' \<and> current_quarter c = 1 \<and> status_consistent c)"
proof -
  have A: "current_quarter s' = current_quarter s + 1
      \<and> game_status s' =
          (if 4 < current_quarter s + 1 then ''Finished''
           else ''Q'' @ str_int (current_quarter s + 1))
      \<and> ((game_status s' = ''Finished'') = (4 < current_quarter s + 1))"
    if a: "close_quarter sessions session_id g = Inr (s', sessions', g')
             \<and> get_by_id sessions session_id = Some s"
  proof -
    from a have q: "close_quarter sessions session_id g = Inr (s', sessions', g')"
      and g: "get_by_id sessions session_id = Some s"
      by simp_all
    from close_quarter_Inr(2,3) [OF q g] show ?thesis
      by (simp add: status_for_quarter_def)
  qed
  have B: "status_consistent t'
      \<and> status_rank (game_status t) \<le> status_rank (game_status t')
      \<and> status_rank (game_status t') \<le> status_rank (game_status t) + 1
      \<and> 1 \<le> status_rank (game_status t')
      \<and> (game_status t = ''Finished'' \<longrightarrow> game_status t' = ''Finished'')"
    if b: "run_operation op sessions session_id g = Inr (t', sessions_t, g_t)
             \<and> get_by_id sessions session_id = Some t \<and> status_consistent t"
  proof -
    from b have r: "run_operation op sessions session_id g = Inr (t', sessions_t, g_t)"
      and g: "get_by_id sessions session_id = Some t" and c: "status_consistent t"
      by simp_all
    from status_step [OF c run_operation_Inr [OF r g]] show ?thesis
      by blast
  qed
  have C: "game_status u' = ''Finished''
      \<and> close_quarter sessions session_id g = Inr (u', sessions_u, g_u)
      \<and> list_all (\<lambda>kc. active_question_id (snd kc) = None) (companies u')"
    if c: "close_quarter_main sessions session_id now g = Inr (u', sessions_u, g_u)
             \<and> get_by_id sessions session_id = Some u \<and> current_quarter u = 4"
  proof -
    from c have m: "close_quarter_main sessions session_id now g = Inr (u', sessions_u, g_u)"
      and g: "get_by_id sessions session_id = Some u" and q: "current_quarter u = 4"
      by simp_all
    from m obtain x sessions_x g_x where
      x: "close_quarter sessions session_id g = Inr (x, sessions_x, g_x)"
      by (auto simp: close_quarter_main_def split: sum.splits)
    note r = close_quarter_Inr [OF x g]
    from r(3) q have f: "game_status x = ''Finished''"
      by (simp add: status_for_quarter_def)
    from close_quarter_main_finished [OF x f, of now] m
    have e: "u' = x" "sessions_u = sessions_x" "g_u = g_x"
      by simp_all
    from r(1) have "close_companies g (companies u) = Inr (companies x, g_x)"
      by auto
    from close_companies_appended [OF this]
    have "list_all (\<lambda>kc. active_question_id (snd kc) = None) (companies x)"
      by (auto simp: list_all2_conv_all_nth list_all_length)
    with x f e show ?thesis by simp
  qed
  have D: "game_status c = ''Q1'' \<and> current_quarter c = 1 \<and> status_consistent c"
    if d: "create_session sessions company_names uuid_a uuid_b now g = Inr (c, sessions_c, g_c)"
    using create_session_Inr [OF d]
    by (simp add: status_consistent_def status_for_quarter_values)
  from A B C D show ?thesis by blast
qed

theorem game_status_forward_witness:
  "status_consistent quarter4_session
   \<and> get_by_id [(''s1'', quarter4_session)] ''s1'' = Some quarter4_session
   \<and> current_quarter quarter4_session = 4
   \<and> game_status quarter4_session = ''Q4''
   \<and> (\<exists>s' sessions' g'.
         close_quarter [(''s1'', quarter4_session)] ''s1'' zero_draws = Inr (s', sessions', g')
         \<and> run_operation CloseQuarter [(''s1'', quarter4_session)] ''s1'' zero_draws
             = Inr (s', sessions', g')
         \<and> close_quarter_main [(''s1'', quarter4_session)] ''s1'' 9 zero_draws
             = Inr (s', sessions', g')
         \<and> current_quarter s' = 5 \<and> game_status s' = ''Finished''
         \<and> status_consistent s'
         \<and> list_all (\<lambda>kc. active_question_id (snd kc) = None) (companies s'))
   \<and> (case create_session [] [''Alpha Corp''] ''s1'' ''ab12cd34'' 0 zero_draws of
         Inl e \<Rightarrow> False
       | Inr (c, sessions_c, g_c) \<Rightarrow> game_status c = ''Q1'' \<and> status_consistent c)
   \<and> status_consistent finished_session_with_decision
   \<and> game_status finished_session_with_decision = ''Finished''
   \<and> (\<exists>t' sessions_t g_t.
         run_operation CloseQuarter [(''s1'', finished_session_with_decision)] ''s1'' zero_draws
           = Inr (t', sessions_t, g_t)
         \<and> game_status t' = ''Finished'')"
proof -
  have fk: "status_consistent finished_session_with_decision"
    and fs: "game_status finished_session_with_decision = ''Finished''"
    by (simp_all add: status_consistent_def finished_session_with_decision_def
        status_for_quarter_def)
  have fg: "get_by_id [(''s1'', finished_session_with_decision)] ''s1''
              = Some finished_session_with_decision"
    by (simp add: get_by_id_def)
  have "list_all (\<lambda>kc. company_closable (snd kc))
          (companies finished_session_with_decision)"
    by (simp add: finished_session_with_decision_def company_closable_def has_decision_def
        Decision_from_dict_three INITIAL_FINANCIALS_nonempty)
  from close_quarter_total [OF fg this, of zero_draws] obtain t' sessions_t g_t where
    "close_quarter [(''s1'', finished_session_with_decision)] ''s1'' zero_draws
       = Inr (t', sessions_t, g_t)"
    by blast
  then have fr: "run_operation CloseQuarter [(''s1'', finished_session_with_decision)]
                   ''s1'' zero_draws = Inr (t', sessions_t, g_t)"
    by simp
  note tf = game_status_forward
    [where sessions = "[(''s1'', finished_session_with_decision)]" and session_id = "''s1''"
       and g = zero_draws and op = CloseQuarter and t' = t' and sessions_t = sessions_t
       and g_t = g_t and t = finished_session_with_decision,
     THEN conjunct2, THEN conjunct1, rule_format]
  have "game_status t' = ''Finished''"
    using tf fr fg fk fs by blast
  with fr have ff: "\<exists>t' sessions_t g_t.
         run_operation CloseQuarter [(''s1'', finished_session_with_decision)] ''s1'' zero_draws
           = Inr (t', sessions_t, g_t)
         \<and> game_status t' = ''Finished''"
    by blast
  have k: "status_consistent quarter4_session"
    by (simp add: status_consistent_def quarter4_session_def status_for_quarter_values)
  have g: "get_by_id [(''s1'', quarter4_session)] ''s1'' = Some quarter4_session"
    by (simp add: get_by_id_def)
  have q: "current_quarter quarter4_session = 4" "game_status quarter4_session = ''Q4''"
    by (simp_all add: quarter4_session_def)
  have "list_all (\<lambda>kc. company_closable (snd kc)) (companies quarter4_session)"
    by (simp add: quarter4_session_def company_closable_def has_decision_def
        Decision_from_dict_three INITIAL_FINANCIALS_nonempty)
  from close_quarter_total [OF g this, of zero_draws] obtain s' sessions' g' where
    x: "close_quarter [(''s1'', quarter4_session)] ''s1'' zero_draws = Inr (s', sessions', g')"
    by blast
  then have r: "run_operation CloseQuarter [(''s1'', quarter4_session)] ''s1'' zero_draws
                  = Inr (s', sessions', g')"
    by simp
  obtain c sessions_c g_c where
    d: "create_session [] [''Alpha Corp''] ''s1'' ''ab12cd34'' 0 zero_draws
          = Inr (c, sessions_c, g_c)"
    using create_session_alpha by blast
  note t = game_status_forward
    [where sessions = "[(''s1'', quarter4_session)]" and session_id = "''s1''"
       and g = zero_draws and s' = s' and sessions' = sessions' and g' = g'
       and s = quarter4_session and op = CloseQuarter and t' = s' and sessions_t = sessions'
       and g_t = g' and t = quarter4_session and now = 9 and u' = s'
       and sessions_u = sessions' and g_u = g' and u = quarter4_session]
  from t x g q have a: "current_quarter s' = 5" "game_status s' = ''Finished''"
    by simp_all
  from close_quarter_main_finished [OF x a(2), of 9]
  have m: "close_quarter_main [(''s1'', quarter4_session)] ''s1'' 9 zero_draws
             = Inr (s', sessions', g')" .
  from t r g k have b: "status_consistent s'"
    by simp
  from t m g q have l: "list_all (\<lambda>kc. active_question_id (snd kc) = None) (companies s')"
    by simp
  from game_status_forward
    [where sessions = "[]" and company_names = "[''Alpha Corp'']" and uuid_a = "''s1''"
       and uuid_b = "''ab12cd34''" and now = 0 and g = zero_draws and c = c
       and sessions_c = sessions_c and g_c = g_c] d
  have "game_status c = ''Q1'' \<and> status_consistent c"
    by simp
  with d have e: "case create_session [] [''Alpha Corp''] ''s1'' ''ab12cd34'' 0 zero_draws of
         Inl e \<Rightarrow> False
       | Inr (c, sessions_c, g_c) \<Rightarrow> game_status c = ''Q1'' \<and> status_consistent c"
    by simp
  from x r m a b l have ex: "\<exists>s' sessions' g'.
         close_quarter [(''s1'', quarter4_session)] ''s1'' zero_draws = Inr (s', sessions', g')
         \<and> run_operation CloseQuarter [(''s1'', quarter4_session)] ''s1'' zero_draws
             = Inr (s', sessions', g')
         \<and> close_quarter_main [(''s1'', quarter4_session)] ''s1'' 9 zero_draws
             = Inr (s', sessions', g')
         \<and> current_quarter s' = 5 \<and> game_status s' = ''Finished''
         \<and> status_consistent s'
         \<and> list_all (\<lambda>kc. active_question_id (snd kc) = None) (companies s')"
    by (intro exI conjI)
  show ?thesis
    by (intro conjI) (rule k g q ex e fk fs ff)+
qed

lemma close_company_Inl_iff:
  assumes "financials company \<noteq> []"
  shows "(close_company g company = Inl e)
         = (simulate_quarter (last (financials company))
              (spec_effective_decision (decisions company) (selected_option_id company)
                 (spec_question_id company g)) = Inl e)"
  using close_company_cases [of company g] assms by auto

lemma close_companies_accepted:
  assumes "list_all
             (\<lambda>kc. financials (snd kc) \<noteq> []
                \<and> (\<forall>gi. \<exists>dk. Decision_from_dict
                              (spec_effective_decision (decisions (snd kc))
                                 (selected_option_id (snd kc)) (spec_question_id (snd kc) gi))
                            = Inr dk)) cs"
  shows "\<exists>ucs g'. close_companies g cs = Inr (ucs, g')"
  using assms
proof (induction cs arbitrary: g)
  case Nil
  then show ?case by simp
next
  case (Cons kc cs)
  obtain k c where kc: "kc = (k, c)" by (cases kc)
  with Cons.prems have f: "financials c \<noteq> []"
    and "\<exists>dk. Decision_from_dict
                 (spec_effective_decision (decisions c) (selected_option_id c)
                    (spec_question_id c g)) = Inr dk"
    by auto
  then obtain dk where
    "Decision_from_dict
       (spec_effective_decision (decisions c) (selected_option_id c)
          (spec_question_id c g)) = Inr dk"
    by blast
  from close_company_total [OF f this] obtain c' ga where
    c: "close_company g c = Inr (c', ga)"
    by blast
  from Cons.prems have
    "list_all
       (\<lambda>kc. financials (snd kc) \<noteq> []
          \<and> (\<forall>gi. \<exists>dk. Decision_from_dict
                        (spec_effective_decision (decisions (snd kc))
                           (selected_option_id (snd kc)) (spec_question_id (snd kc) gi))
                      = Inr dk)) cs"
    by simp
  from Cons.IH [OF this, of ga] obtain ucs g' where "close_companies ga cs = Inr (ucs, g')"
    by blast
  with c kc show ?case by simp
qed

lemma close_companies_cleared:
  assumes "close_companies g cs = Inr (ucs, g')"
  shows "list_all (\<lambda>kc. decisions (snd kc) = [] \<and> active_question_id (snd kc) = None
                     \<and> selected_option_id (snd kc) = None) ucs"
  using assms
proof (induction cs arbitrary: g ucs)
  case Nil
  then show ?case by simp
next
  case (Cons kc cs)
  obtain k c where kc: "kc = (k, c)" by (cases kc)
  from Cons.prems kc obtain c' ga ucs' where
    c: "close_company g c = Inr (c', ga)"
    and r: "close_companies ga cs = Inr (ucs', g')"
    and u: "ucs = (k, c') # ucs'"
    by (auto split: sum.splits prod.splits)
  from Cons.IH [OF r] close_company_Inr(4,5,6) [OF c] u show ?case
    by simp
qed

lemma company_with_answer_decision_all:
  "spec_effective_decision (decisions company_with_answer)
     (selected_option_id company_with_answer)
     (spec_question_id company_with_answer gi) =
   [(''production'', 800), (''price'', 52), (''marketing'', 800)]"
  by (simp add: company_with_answer_def spec_question_id_def spec_effective_decision_def
      QUESTION_BANK_def apply_option_impact_def dict_get_def Let_def)

text \<open>
  C6, amended. For every company that close\_quarter processes, the decision fed to
  simulate\_quarter is the transform of the pending decision by the option, of the
  question resolved for the company, whose id is the selected option id, when there is
  such an option; the resolved question is the active question or, when the company has
  none, the question drawn ad hoc from the catalog. In every other case (no selection,
  a selection that matches no option, an unknown question id) the pending decision is
  fed as it is. Resolving the option raises nothing: for a company with a financial
  history, closing it fails exactly when simulate\_quarter rejects the decision fed to
  it, with that error, and close\_quarter returns a session whenever every company of
  the stored session has a financial history and an effective decision that
  simulate\_quarter accepts. In every session that close\_quarter returns, each company
  has the snapshot of its effective decision appended and has no pending decision, no
  active question and no selected option.
\<close>

theorem close_quarter_effective_decision:
  "(close_company g company = Inr (company', g') \<longrightarrow>
      financials company \<noteq> []
      \<and> simulate_quarter (last (financials company))
            (spec_effective_decision (decisions company) (selected_option_id company)
               (spec_question_id company g)) = Inr (last (financials company'))
      \<and> financials company' = financials company @ [last (financials company')]
      \<and> decisions company' = [] \<and> active_question_id company' = None
      \<and> selected_option_id company' = None)
   \<and> (financials other \<noteq> [] \<longrightarrow>
        (close_company g other = Inl e)
        = (simulate_quarter (last (financials other))
             (spec_effective_decision (decisions other) (selected_option_id other)
                (spec_question_id other g)) = Inl e))
   \<and> (financials company \<noteq> []
        \<and> Decision_from_dict
             (spec_effective_decision (decisions company) (selected_option_id company)
                (spec_question_id company g)) = Inr d \<longrightarrow>
        (\<exists>c' g''. close_company g company = Inr (c', g'')))
   \<and> (close_quarter sessions session_id ga = Inr (s', sessions', gb)
        \<and> get_by_id sessions session_id = Some s \<longrightarrow>
        list_all2
          (\<lambda>kc kc'. fst kc' = fst kc
             \<and> (\<exists>gi. simulate_quarter (last (financials (snd kc)))
                        (spec_effective_decision (decisions (snd kc))
                           (selected_option_id (snd kc)) (spec_question_id (snd kc) gi))
                      = Inr (last (financials (snd kc'))))
             \<and> financials (snd kc') = financials (snd kc) @ [last (financials (snd kc'))]
             \<and> decisions (snd kc') = [] \<and> active_question_id (snd kc') = None
             \<and> selected_option_id (snd kc') = None)
          (companies s) (companies s'))
   \<and> (get_by_id sessions session_id = Some s
        \<and> list_all
             (\<lambda>kc. financials (snd kc) \<noteq> []
                \<and> (\<forall>gi. \<exists>dk. Decision_from_dict
                              (spec_effective_decision (decisions (snd kc))
                                 (selected_option_id (snd kc)) (spec_question_id (snd kc) gi))
                            = Inr dk))
             (companies s) \<longrightarrow>
        (\<exists>u sessions_u g_u.
           close_quarter sessions session_id ga = Inr (u, sessions_u, g_u)
           \<and> list_all (\<lambda>kc. decisions (snd kc) = [] \<and> active_question_id (snd kc) = None
                              \<and> selected_option_id (snd kc) = None) (companies u)))"
proof -
  have A: "financials company \<noteq> []
      \<and> simulate_quarter (last (financials company))
            (spec_effective_decision (decisions company) (selected_option_id company)
               (spec_question_id company g)) = Inr (last (financials company'))
      \<and> financials company' = financials company @ [last (financials company')]
      \<and> decisions company' = [] \<and> active_question_id company' = None
      \<and> selected_option_id company' = None"
    if c: "close_company g company = Inr (company', g')"
    using close_company_Inr [OF c] by simp
  have A2: "(close_company g other = Inl e)
        = (simulate_quarter (last (financials other))
             (spec_effective_decision (decisions other) (selected_option_id other)
                (spec_question_id other g)) = Inl e)"
    if "financials other \<noteq> []"
    using close_company_Inl_iff [OF that] .
  have B: "\<exists>c' g''. close_company g company = Inr (c', g'')"
    if "financials company \<noteq> []
        \<and> Decision_from_dict
             (spec_effective_decision (decisions company) (selected_option_id company)
                (spec_question_id company g)) = Inr d"
    using that close_company_total [of company g d] by simp
  have C: "list_all2
          (\<lambda>kc kc'. fst kc' = fst kc
             \<and> (\<exists>gi. simulate_quarter (last (financials (snd kc)))
                        (spec_effective_decision (decisions (snd kc))
                           (selected_option_id (snd kc)) (spec_question_id (snd kc) gi))
                      = Inr (last (financials (snd kc'))))
             \<and> financials (snd kc') = financials (snd kc) @ [last (financials (snd kc'))]
             \<and> decisions (snd kc') = [] \<and> active_question_id (snd kc') = None
             \<and> selected_option_id (snd kc') = None)
          (companies s) (companies s')"
    if a: "close_quarter sessions session_id ga = Inr (s', sessions', gb)
        \<and> get_by_id sessions session_id = Some s"
  proof -
    from a have "close_companies ga (companies s) = Inr (companies s', gb)"
      using close_quarter_Inr(1) [of sessions session_id ga s' sessions' gb s] by auto
    from close_companies_Inr [OF this] show ?thesis
    proof (rule list_all2_mono)
      fix kc kc'
      assume "fst kc' = fst kc
                \<and> (\<exists>gi gi'. close_company gi (snd kc) = Inr (snd kc', gi'))"
      then obtain gi gi' where
        k: "fst kc' = fst kc" and c: "close_company gi (snd kc) = Inr (snd kc', gi')"
        by blast
      from close_company_Inr [OF c] k
      show "fst kc' = fst kc
             \<and> (\<exists>gi. simulate_quarter (last (financials (snd kc)))
                        (spec_effective_decision (decisions (snd kc))
                           (selected_option_id (snd kc)) (spec_question_id (snd kc) gi))
                      = Inr (last (financials (snd kc'))))
             \<and> financials (snd kc') = financials (snd kc) @ [last (financials (snd kc'))]
             \<and> decisions (snd kc') = [] \<and> active_question_id (snd kc') = None
             \<and> selected_option_id (snd kc') = None"
        by blast
    qed
  qed
  have D: "\<exists>u sessions_u g_u.
           close_quarter sessions session_id ga = Inr (u, sessions_u, g_u)
           \<and> list_all (\<lambda>kc. decisions (snd kc) = [] \<and> active_question_id (snd kc) = None
                              \<and> selected_option_id (snd kc) = None) (companies u)"
    if h: "get_by_id sessions session_id = Some s
        \<and> list_all
             (\<lambda>kc. financials (snd kc) \<noteq> []
                \<and> (\<forall>gi. \<exists>dk. Decision_from_dict
                              (spec_effective_decision (decisions (snd kc))
                                 (selected_option_id (snd kc)) (spec_question_id (snd kc) gi))
                            = Inr dk))
             (companies s)"
  proof -
    from h have gs: "get_by_id sessions session_id = Some s" by simp
    from h close_companies_accepted [of "companies s" ga] obtain ucs g_u where
      cc: "close_companies ga (companies s) = Inr (ucs, g_u)"
      by blast
    with gs obtain u sessions_u where
      q: "close_quarter sessions session_id ga = Inr (u, sessions_u, g_u)"
      by (auto simp: close_quarter_def Let_def)
    from close_quarter_Inr(1) [OF q gs] cc have "companies u = ucs"
      by simp
    with close_companies_cleared [OF cc] q show ?thesis
      by blast
  qed
  show ?thesis
    apply (intro conjI impI)
    subgoal using A by blast
    subgoal using A by blast
    subgoal using A by blast
    subgoal using A by blast
    subgoal using A by blast
    subgoal using A by blast
    subgoal using A2 by blast
    subgoal using B by blast
    subgoal using C by blast
    subgoal using D by blast
    done
qed

theorem close_quarter_effective_decision_witness:
  "(\<exists>c' g'. close_company zero_draws company_with_answer = Inr (c', g')
      \<and> simulate_quarter (last (financials company_with_answer))
            [(''production'', 800), (''price'', 52), (''marketing'', 800)]
          = Inr (last (financials c'))
      \<and> marketing (last (financials c')) = 800
      \<and> decisions c' = [] \<and> active_question_id c' = None \<and> selected_option_id c' = None)
   \<and> financials company_without_decision \<noteq> []
   \<and> close_company zero_draws company_without_decision = Inl TypeError
   \<and> get_by_id [(''s1'', gamma_session)] ''s1'' = Some gamma_session
   \<and> (\<exists>u sessions_u g_u.
         close_quarter [(''s1'', gamma_session)] ''s1'' zero_draws = Inr (u, sessions_u, g_u)
         \<and> list_all (\<lambda>kc. decisions (snd kc) = [] \<and> active_question_id (snd kc) = None
                            \<and> selected_option_id (snd kc) = None) (companies u)
         \<and> list_all2 (\<lambda>kc kc'. fst kc' = fst kc
                             \<and> (\<exists>snap. financials (snd kc') = financials (snd kc) @ [snap]))
               (companies gamma_session) (companies u))"
proof -
  have f: "financials company_with_answer \<noteq> []"
    by (simp add: company_with_answer_def INITIAL_FINANCIALS_nonempty)
  from close_company_result
    [OF f company_with_answer_decision Decision_from_dict_three]
  obtain c' g' where
    c: "close_company zero_draws company_with_answer = Inr (c', g')"
    and m: "marketing (last (financials c')) = 800"
    by auto
  have fo: "financials company_without_decision \<noteq> []"
    by (simp add: company_without_decision_def INITIAL_FINANCIALS_nonempty)
  have so: "simulate_quarter (last (financials company_without_decision))
              (spec_effective_decision (decisions company_without_decision)
                 (selected_option_id company_without_decision)
                 (spec_question_id company_without_decision zero_draws)) = Inl TypeError"
    by (simp add: company_without_decision_def spec_effective_decision_no_selection
        simulate_quarter_empty_decision)
  have gs: "get_by_id [(''s1'', gamma_session)] ''s1'' = Some gamma_session"
    by (simp add: get_by_id_def)
  have acc: "list_all
             (\<lambda>kc. financials (snd kc) \<noteq> []
                \<and> (\<forall>gi. \<exists>dk. Decision_from_dict
                              (spec_effective_decision (decisions (snd kc))
                                 (selected_option_id (snd kc)) (spec_question_id (snd kc) gi))
                            = Inr dk))
             (companies gamma_session)"
    by (simp add: gamma_session_def f company_with_answer_decision_all
        Decision_from_dict_three)
  note td = close_quarter_effective_decision
    [where sessions = "[(''s1'', gamma_session)]" and session_id = "''s1''"
       and ga = zero_draws and s = gamma_session,
     THEN conjunct2, THEN conjunct2, THEN conjunct2, THEN conjunct2]
  have "\<exists>u sessions_u g_u.
         close_quarter [(''s1'', gamma_session)] ''s1'' zero_draws = Inr (u, sessions_u, g_u)
         \<and> list_all (\<lambda>kc. decisions (snd kc) = [] \<and> active_question_id (snd kc) = None
                            \<and> selected_option_id (snd kc) = None) (companies u)"
    by (rule mp [OF td]) (rule conjI [OF gs acc])
  then obtain u sessions_u g_u where
    q: "close_quarter [(''s1'', gamma_session)] ''s1'' zero_draws = Inr (u, sessions_u, g_u)"
    and cl: "list_all (\<lambda>kc. decisions (snd kc) = [] \<and> active_question_id (snd kc) = None
                            \<and> selected_option_id (snd kc) = None) (companies u)"
    by blast
  note t = close_quarter_effective_decision
    [where g = zero_draws and company = company_with_answer and company' = c' and g' = g'
       and other = company_without_decision and e = TypeError
       and d = "\<lparr>Decision.production = 800, Decision.price = 52, Decision.marketing = 800\<rparr>"
       and sessions = "[(''s1'', gamma_session)]" and session_id = "''s1''"
       and ga = zero_draws and s' = u and sessions' = sessions_u and gb = g_u
       and s = gamma_session]
  note ta = mp [OF t [THEN conjunct1] c]
  from ta have 1: "simulate_quarter (last (financials company_with_answer))
            [(''production'', 800), (''price'', 52), (''marketing'', 800)]
          = Inr (last (financials c'))"
    by (simp add: company_with_answer_decision)
  from ta have 2: "decisions c' = []" "active_question_id c' = None"
    "selected_option_id c' = None"
    by simp_all
  from mp [OF t [THEN conjunct2, THEN conjunct1] fo] so
  have 3: "close_company zero_draws company_without_decision = Inl TypeError"
    by simp
  from mp [OF t [THEN conjunct2, THEN conjunct2, THEN conjunct2, THEN conjunct1]
      conjI [OF q gs]]
  have 4: "list_all2 (\<lambda>kc kc'. fst kc' = fst kc
                             \<and> (\<exists>snap. financials (snd kc') = financials (snd kc) @ [snap]))
               (companies gamma_session) (companies u)"
  proof (rule list_all2_mono)
    fix kc kc'
    assume "fst kc' = fst kc
             \<and> (\<exists>gi. simulate_quarter (last (financials (snd kc)))
                        (spec_effective_decision (decisions (snd kc))
                           (selected_option_id (snd kc)) (spec_question_id (snd kc) gi))
                      = Inr (last (financials (snd kc'))))
             \<and> financials (snd kc') = financials (snd kc) @ [last (financials (snd kc'))]
             \<and> decisions (snd kc') = [] \<and> active_question_id (snd kc') = None
             \<and> selected_option_id (snd kc') = None"
    then show "fst kc' = fst kc
                 \<and> (\<exists>snap. financials (snd kc') = financials (snd kc) @ [snap])"
      by blast
  qed
  from c 1 m 2 have 5: "\<exists>c' g'. close_company zero_draws company_with_answer = Inr (c', g')
      \<and> simulate_quarter (last (financials company_with_answer))
            [(''production'', 800), (''price'', 52), (''marketing'', 800)]
          = Inr (last (financials c'))
      \<and> marketing (last (financials c')) = 800
      \<and> decisions c' = [] \<and> active_question_id c' = None \<and> selected_option_id c' = None"
    by (intro exI conjI)
  from q cl 4 have 6: "\<exists>u sessions_u g_u.
         close_quarter [(''s1'', gamma_session)] ''s1'' zero_draws = Inr (u, sessions_u, g_u)
         \<and> list_all (\<lambda>kc. decisions (snd kc) = [] \<and> active_question_id (snd kc) = None
                            \<and> selected_option_id (snd kc) = None) (companies u)
         \<and> list_all2 (\<lambda>kc kc'. fst kc' = fst kc
                             \<and> (\<exists>snap. financials (snd kc') = financials (snd kc) @ [snap]))
               (companies gamma_session) (companies u)"
    by (intro exI conjI)
  show ?thesis
    by (intro conjI) (rule 5 fo 3 gs 6)+
qed

end
